theory Spec2Isabelle
  imports Main "HOL-Library.AList"
begin

section \<open>RENEC registry reconciliation: seed script and coverage validator\<close>

text \<open>
  A shallow embedding of \<^verbatim>\<open>packages/db/prisma/seed-renec.ts\<close> (the seed script) and of
  the coverage validation script that queries the seeded tables. Strings are
  \<^typ>\<open>string\<close>; the relational store is a record of row lists; a write returns the new
  store.
\<close>

subsection \<open>Extracted JSON structures\<close>

record ExtractedEC =
  idEstandarCompetencia :: string
  idSectorProductivo :: string
  codigo :: string
  nivel :: string
  titulo :: string
  comite :: string
  secProductivo :: string

record EstandarAsociado =
  ea_codigo :: string
  ea_titulo :: string

record ExtractedCommittee =
  clave :: string
  nombre :: string
  presidente :: "string option"
  vicepresidente :: "string option"
  calleNumero :: "string option"
  colonia :: "string option"
  codigoPostal :: "int option"
  localidad :: "string option"
  telefonos :: "string option"
  correo :: "string option"
  url :: "string option"
  c_idSectorProductivo :: "int option"
  sectorProductivoStr :: "string option"
  puestoPresidente :: "string option"
  puestoVicepresidente :: "string option"
  fechaIntegracion :: "int option"
  idTipoComite :: "int option"
  contacto :: "string option"
  delegacionStr :: "string option"
  entidadStr :: "string option"
  estandaresAsociados :: "EstandarAsociado list"
  c_id :: int

record MatrixEntry =
  ece_ids :: "string list"
  ece_count :: int
  title :: string

text \<open>
  A JSON object of type \<^verbatim>\<open>Record<string, T>\<close> is the list of its entries, in the order
  \<^verbatim>\<open>Object.entries\<close> yields them.
\<close>

record ECECEMatrixFile =
  mx_generated_at :: string
  total_ecs :: int
  matrix :: "(string \<times> MatrixEntry) list"

record ExtractedCertifier =
  cert_id :: string
  cert_canonical_name :: string
  cert_alternate_names :: "string list"
  cert_normalized_key :: string
  entity_type :: string
  cert_ec_codes :: "string list"

record CertifierRegistryFile =
  certs_generated_at :: string
  certs_total_count :: int
  cert_registry :: "ExtractedCertifier list"

record ExtractedCenter =
  center_id :: string
  center_canonical_name :: string
  center_alternate_names :: "string list"
  center_normalized_key :: string
  ec_codes :: "string list"
  ec_count :: int

record CenterRegistryFile =
  centers_generated_at :: string
  centers_total_count :: int
  center_registry :: "ExtractedCenter list"

record ECDetail =
  det_title :: string
  det_certifiers :: "string list"
  det_courses :: "string list"
  det_occupations :: "string list"
  det_committee_members :: "string list"

record ECCertifiersAllFile =
  extraction_date :: string
  failed_ecs :: "string list"
  ec_details :: "(string \<times> ECDetail) list"

subsection \<open>Source files\<close>

text \<open>
  What \<^verbatim>\<open>loadJsonFile\<close> finds under a file name: no file, a file that
  \<^verbatim>\<open>JSON.parse\<close> rejects, or a parsed value. The data directory is a record of the
  six files the script reads.
\<close>

datatype 'a source_file = Missing | Unparsable | Content 'a

definition loadJsonFile :: "'a source_file \<Rightarrow> 'a option" where
  "loadJsonFile f = (case f of Missing \<Rightarrow> None | Unparsable \<Rightarrow> None | Content v \<Rightarrow> Some v)"

record dataDir =
  ec_standards_api :: "ExtractedEC list source_file"
  ec_ece_matrix :: "ECECEMatrixFile source_file"
  master_ece_registry :: "CertifierRegistryFile source_file"
  master_ccap_registry :: "CenterRegistryFile source_file"
  committees_complete :: "ExtractedCommittee list source_file"
  ec_certifiers_all :: "ECCertifiersAllFile source_file"

subsection \<open>String helpers of the JavaScript runtime\<close>

text \<open>
  \<^verbatim>\<open>String.prototype.toUpperCase\<close> on the ASCII letters; every other character is
  kept as it is.
\<close>

definition upper_char :: "char \<Rightarrow> char" where
  "upper_char c =
     (case map_of (zip ''abcdefghijklmnopqrstuvwxyz'' ''ABCDEFGHIJKLMNOPQRSTUVWXYZ'') c of
        Some u \<Rightarrow> u
      | None \<Rightarrow> c)"

definition toUpperCase :: "string \<Rightarrow> string" where
  "toUpperCase s = map upper_char s"

fun startsWith :: "string \<Rightarrow> string \<Rightarrow> bool" where
  "startsWith s [] = True"
| "startsWith [] (c # cs) = False"
| "startsWith (x # xs) (c # cs) = (x = c \<and> startsWith xs cs)"

text \<open>\<^verbatim>\<open>s.includes(sub)\<close>: \<open>sub\<close> occurs in \<open>s\<close> at some position.\<close>

fun str_includes :: "string \<Rightarrow> string \<Rightarrow> bool" where
  "str_includes [] sub = startsWith [] sub"
| "str_includes (x # xs) sub = (startsWith (x # xs) sub \<or> str_includes xs sub)"

definition isWhiteSpace :: "char \<Rightarrow> bool" where
  "isWhiteSpace c \<longleftrightarrow> c \<in> set [CHR '' '', CHR 0x09, CHR 0x0A, CHR 0x0B, CHR 0x0C, CHR 0x0D]"

definition isDigit :: "char \<Rightarrow> bool" where
  "isDigit c \<longleftrightarrow> c \<in> set ''0123456789''"

text \<open>\<^verbatim>\<open>s.trim()\<close>, on the ASCII white space.\<close>

definition trim :: "string \<Rightarrow> string" where
  "trim s = rev (dropWhile isWhiteSpace (rev (dropWhile isWhiteSpace s)))"

text \<open>
  The integer results of \<^verbatim>\<open>parseInt\<close>: \<open>NaN\<close> or an integer (the loss of precision
  of a double beyond \<open>2^53\<close> is not modelled).
\<close>

datatype jsnum = NaN | Num int

definition digitValue :: "char \<Rightarrow> nat" where
  "digitValue c = of_char c - 48"

definition parseInt10 :: "string \<Rightarrow> jsnum" where
  "parseInt10 s =
     (let t = dropWhile isWhiteSpace s;
          neg = (case t of [] \<Rightarrow> False | c # _ \<Rightarrow> c = CHR ''-'');
          u = (case t of [] \<Rightarrow> [] | c # r \<Rightarrow> if c = CHR ''-'' \<or> c = CHR ''+'' then r else t);
          ds = takeWhile isDigit u
      in if ds = [] then NaN
         else Num ((if neg then - 1 else 1) * int (foldl (\<lambda>a c. 10 * a + digitValue c) 0 ds)))"

text \<open>Decimal rendering of an integer, as a template literal or \<^verbatim>\<open>String(n)\<close> gives it.\<close>

function showNat :: "nat \<Rightarrow> string" where
  "showNat n =
     (if n < 10 then [''0123456789'' ! n]
      else showNat (n div 10) @ [''0123456789'' ! (n mod 10)])"
  by pat_completeness auto
termination
  by (relation "measure id") auto

definition showInt :: "int \<Rightarrow> string" where
  "showInt i = (if i < 0 then CHR ''-'' # showNat (nat (- i)) else showNat (nat i))"

text \<open>\<^verbatim>\<open>s || d\<close> and \<^verbatim>\<open>s || null\<close> on strings: the empty string is falsy.\<close>

definition orElse :: "string \<Rightarrow> string \<Rightarrow> string" where
  "orElse s d = (if s = [] then d else s)"

definition orNull :: "string \<Rightarrow> string option" where
  "orNull s = (if s = [] then None else Some s)"

definition optOrNull :: "string option \<Rightarrow> string option" where
  "optOrNull v = (case v of None \<Rightarrow> None | Some s \<Rightarrow> orNull s)"

text \<open>
  The loop \<^verbatim>\<open>for (let i = 0; i < xs.length; i += size) { batch = xs.slice(i, i + size); ... }\<close>
  over a state \<open>s\<close>. Every batch size in the script is a positive constant; with size
  \<open>0\<close> the source would not terminate, and the model stops.
\<close>

function forBatches :: "nat \<Rightarrow> 'a list \<Rightarrow> ('a list \<Rightarrow> 's \<Rightarrow> 's) \<Rightarrow> nat \<Rightarrow> 's \<Rightarrow> 's" where
  "forBatches bsize xs body i s =
     (if i < length xs \<and> 0 < bsize
      then forBatches bsize xs body (i + bsize) (body (take bsize (drop i xs)) s)
      else s)"
  by pat_completeness auto
termination
  by (relation "measure (\<lambda>(bsize, xs, body, i, s). length xs - i)") auto

subsection \<open>Content fingerprint\<close>

text \<open>
  \<^verbatim>\<open>createHash("sha256").update(JSON.stringify(obj)).digest("hex").slice(0, 16)\<close>.
  \<^verbatim>\<open>JSON.stringify\<close> and the SHA-256 digest in hexadecimal are functions of the Node
  runtime; they are parameters here.
\<close>

definition contentHash :: "('a \<Rightarrow> string) \<Rightarrow> (string \<Rightarrow> string) \<Rightarrow> 'a \<Rightarrow> string" where
  "contentHash stringify sha256_hex obj = take 16 (sha256_hex (stringify obj))"

record runtime =
  sha256_hex :: "string \<Rightarrow> string"
  stringify_sector :: "int \<times> string \<Rightarrow> string"
  stringify_committee :: "ExtractedCommittee \<Rightarrow> string"
  stringify_ec :: "ExtractedEC \<Rightarrow> string"
  stringify_certifier :: "ExtractedCertifier \<Rightarrow> string"
  stringify_center :: "ExtractedCenter \<Rightarrow> string"

subsection \<open>Step 3 helper: the reverse index standard code \<open>\<rightarrow>\<close> committee key\<close>

text \<open>
  The module-level variable \<^verbatim>\<open>_ecToCommitteeKeyCache\<close> is \<^verbatim>\<open>null\<close> when the process
  starts (\<open>None\<close>) and holds the map once it has been built. The builder takes the
  variable's value and returns the index together with the variable's new value.
\<close>

type_synonym ec_index = "string \<rightharpoonup> string"

definition index_committee :: "ExtractedCommittee \<Rightarrow> ec_index \<Rightarrow> ec_index" where
  "index_committee committee m =
     fold (\<lambda>ea m'. if ea_codigo ea \<noteq> [] then m'(ea_codigo ea \<mapsto> clave committee) else m')
       (estandaresAsociados committee) m"

definition buildEcToCommitteeKeyIndex ::
  "ExtractedCommittee list \<Rightarrow> ec_index option \<Rightarrow> ec_index \<times> ec_index option" where
  "buildEcToCommitteeKeyIndex committees cache =
     (case cache of
        None \<Rightarrow> (let m = fold index_committee committees Map.empty in (m, Some m))
      | Some m \<Rightarrow> (m, Some m))"

subsection \<open>Step 4 helper: the certifier kind\<close>

datatype CertifierTipo = ECE | OC

definition resolveCertifierTipo :: "string \<Rightarrow> CertifierTipo" where
  "resolveCertifierTipo entityType =
     (let upper = toUpperCase entityType in
      if str_includes upper ''OC'' \<or> str_includes upper ''GOBIERNO'' then OC else ECE)"

subsection \<open>The relational store\<close>

text \<open>
  Identifiers generated by the database are natural numbers drawn from a counter;
  timestamps are integers (milliseconds). A row of an entity table has its generated
  identifier, its natural key and the columns the script writes, grouped as the
  \<^verbatim>\<open>data\<close> object of the script groups them. Columns that the script never writes and
  that no modelled query reads (\<^verbatim>\<open>created_at\<close>, \<^verbatim>\<open>updated_at\<close>, contact columns of
  certifiers and centers) are left out.
\<close>

type_synonym uuid = nat
type_synonym timestamp = int

record ('k, 'd) row =
  row_id :: uuid
  row_key :: 'k
  row_data :: 'd

record SectorData =
  sec_nombre :: string
  sec_tipo :: string
  sec_sourceUrl :: string
  sec_contentHash :: string
  sec_lastSyncedAt :: timestamp

record CommitteeData =
  com_nombre :: string
  com_presidente :: "string option"
  com_vicepresidente :: "string option"
  com_puestoPresidente :: "string option"
  com_puestoVicepresidente :: "string option"
  com_contacto :: "string option"
  com_correo :: "string option"
  com_telefonos :: "string option"
  com_url :: "string option"
  com_calleNumero :: "string option"
  com_colonia :: "string option"
  com_codigoPostal :: "string option"
  com_localidad :: "string option"
  com_delegacion :: "string option"
  com_entidad :: "string option"
  com_fechaIntegracion :: "timestamp option"
  com_idTipoComite :: "int option"
  com_sectorId :: "uuid option"
  com_sourceUrl :: string
  com_contentHash :: string
  com_lastSyncedAt :: timestamp

record CommitteeSummary =
  cs_committeeKey :: "string option"
  cs_committeeName :: "string option"
  cs_committeePresident :: "string option"
  cs_committeeContact :: "string option"
  cs_committeeSector :: "string option"
  cs_committeeState :: "string option"

record DetailSummary =
  ds_occupations :: "string list"
  ds_courses :: "string list"
  ds_committeeMembers :: "string list"

record Competencias =
  comp_comite :: "string option"
  comp_idSectorProductivo :: "string option"
  comp_idEstandarCompetencia :: "string option"
  comp_committee :: "CommitteeSummary option"
  comp_detail :: "DetailSummary option"

record ECData =
  ec_titulo :: string
  ec_version :: string
  ec_vigente :: bool
  ec_sector :: "string option"
  ec_nivelCompetencia :: "jsnum option"
  ec_proposito :: "string option"
  ec_committeeId :: "uuid option"
  ec_sectorId :: "uuid option"
  ec_competencias :: Competencias
  ec_elementosJson :: "string list"
  ec_critDesempeno :: "string list"
  ec_critConocimiento :: "string list"
  ec_critProducto :: "string list"
  ec_sourceUrl :: string
  ec_contentHash :: string
  ec_lastSyncedAt :: timestamp

record CertifierData =
  crt_razonSocial :: string
  crt_nombreComercial :: "string option"
  crt_activo :: bool
  crt_tipo :: CertifierTipo
  crt_alternateNames :: "string list"
  crt_normalizedKey :: "string option"
  crt_sourceUrl :: string
  crt_contentHash :: string
  crt_lastSyncedAt :: timestamp

record CenterData =
  cen_nombre :: string
  cen_activo :: bool
  cen_alternateNames :: "string list"
  cen_normalizedKey :: "string option"
  cen_sourceUrl :: string
  cen_contentHash :: string
  cen_lastSyncedAt :: timestamp

record RenecECOccupation =
  occ_id :: uuid
  occ_ecId :: uuid
  occ_occupation :: string

record RenecAccreditation =
  acc_id :: uuid
  acc_certifierId :: uuid
  acc_ecId :: uuid
  acc_vigente :: bool

record RenecCenterOffering =
  off_id :: uuid
  off_centerId :: uuid
  off_ecId :: uuid
  off_activo :: bool

record RenecSyncJob =
  job_id :: uuid
  jobType :: string
  job_status :: string
  startedAt :: timestamp
  completedAt :: timestamp
  itemsProcessed :: int
  itemsCreated :: int
  itemsUpdated :: int
  itemsSkipped :: int
  job_errors :: "string list"

record store =
  renecSector :: "(int, SectorData) row list"
  renecCommittee :: "(string, CommitteeData) row list"
  renecEC :: "(string, ECData) row list"
  renecCertifier :: "(string, CertifierData) row list"
  renecCenter :: "(string, CenterData) row list"
  renecECOccupation :: "RenecECOccupation list"
  renecAccreditation :: "RenecAccreditation list"
  renecCenterOffering :: "RenecCenterOffering list"
  renecSyncJob :: "RenecSyncJob list"
  nextId :: uuid

definition emptyStore :: store where
  "emptyStore =
     \<lparr>renecSector = [], renecCommittee = [], renecEC = [], renecCertifier = [],
      renecCenter = [], renecECOccupation = [], renecAccreditation = [],
      renecCenterOffering = [], renecSyncJob = [], nextId = 0\<rparr>"

subsection \<open>The persistence client\<close>

text \<open>
  A model of the client (\<^verbatim>\<open>prisma.renecEC\<close>, ...) names a table of the store: how to
  read its rows and how to write them back. Every write is taken to be accepted by the
  storage engine; its own rejections (a value out of a column's range, a lost
  connection) are not modelled.
\<close>

record 'r model =
  tbl_rows :: "store \<Rightarrow> 'r list"
  tbl_put :: "'r list \<Rightarrow> store \<Rightarrow> store"

definition renecSector_model :: "(int, SectorData) row model" where
  "renecSector_model = \<lparr>tbl_rows = renecSector, tbl_put = (\<lambda>T S. S\<lparr>renecSector := T\<rparr>)\<rparr>"

definition renecCommittee_model :: "(string, CommitteeData) row model" where
  "renecCommittee_model =
     \<lparr>tbl_rows = renecCommittee, tbl_put = (\<lambda>T S. S\<lparr>renecCommittee := T\<rparr>)\<rparr>"

definition renecEC_model :: "(string, ECData) row model" where
  "renecEC_model = \<lparr>tbl_rows = renecEC, tbl_put = (\<lambda>T S. S\<lparr>renecEC := T\<rparr>)\<rparr>"

definition renecCertifier_model :: "(string, CertifierData) row model" where
  "renecCertifier_model =
     \<lparr>tbl_rows = renecCertifier, tbl_put = (\<lambda>T S. S\<lparr>renecCertifier := T\<rparr>)\<rparr>"

definition renecCenter_model :: "(string, CenterData) row model" where
  "renecCenter_model = \<lparr>tbl_rows = renecCenter, tbl_put = (\<lambda>T S. S\<lparr>renecCenter := T\<rparr>)\<rparr>"

definition renecECOccupation_model :: "RenecECOccupation model" where
  "renecECOccupation_model =
     \<lparr>tbl_rows = renecECOccupation, tbl_put = (\<lambda>T S. S\<lparr>renecECOccupation := T\<rparr>)\<rparr>"

definition renecAccreditation_model :: "RenecAccreditation model" where
  "renecAccreditation_model =
     \<lparr>tbl_rows = renecAccreditation, tbl_put = (\<lambda>T S. S\<lparr>renecAccreditation := T\<rparr>)\<rparr>"

definition renecCenterOffering_model :: "RenecCenterOffering model" where
  "renecCenterOffering_model =
     \<lparr>tbl_rows = renecCenterOffering, tbl_put = (\<lambda>T S. S\<lparr>renecCenterOffering := T\<rparr>)\<rparr>"

text \<open>
  \<^verbatim>\<open>upsert({ where: { key }, update: data, create: { key, ...data } })\<close> on the rows of
  a table and the identifier counter: the row with the key gets the data, or a new row
  with a fresh identifier is added. The row is returned.
\<close>

definition upsert ::
  "'k \<Rightarrow> 'd \<Rightarrow> ('k, 'd) row list \<times> uuid \<Rightarrow> ('k, 'd) row \<times> ('k, 'd) row list \<times> uuid" where
  "upsert k d T =
     (case find (\<lambda>r. row_key r = k) (fst T) of
        Some r \<Rightarrow>
          (r\<lparr>row_data := d\<rparr>,
           map (\<lambda>r'. if row_key r' = k then r'\<lparr>row_data := d\<rparr> else r') (fst T), snd T)
      | None \<Rightarrow>
          (\<lparr>row_id = snd T, row_key = k, row_data = d\<rparr>,
           fst T @ [\<lparr>row_id = snd T, row_key = k, row_data = d\<rparr>], Suc (snd T)))"

definition prisma_upsert ::
  "('k, 'd) row model \<Rightarrow> 'k \<Rightarrow> 'd \<Rightarrow> store \<Rightarrow> ('k, 'd) row \<times> store" where
  "prisma_upsert m k d S =
     (case upsert k d (tbl_rows m S, nextId S) of
        (r, T, n) \<Rightarrow> (r, (tbl_put m T S)\<lparr>nextId := n\<rparr>))"

text \<open>
  \<^verbatim>\<open>createMany({ data, skipDuplicates: true })\<close>: each item whose unique columns
  \<open>uniq\<close> are not yet in the table becomes a new row; the count of new rows is returned.
\<close>

fun createMany_rows ::
  "('r \<Rightarrow> 'p) \<Rightarrow> (uuid \<Rightarrow> 'x \<Rightarrow> 'r) \<Rightarrow> 'x list \<Rightarrow> 'r list \<times> uuid \<Rightarrow> int \<times> 'r list \<times> uuid" where
  "createMany_rows uniq mk [] T = (0, T)"
| "createMany_rows uniq mk (x # xs) T =
     (if uniq (mk (snd T) x) \<in> uniq ` set (fst T) then createMany_rows uniq mk xs T
      else (case createMany_rows uniq mk xs (fst T @ [mk (snd T) x], Suc (snd T)) of
              (c, T') \<Rightarrow> (c + 1, T')))"

definition prisma_createMany ::
  "'r model \<Rightarrow> ('r \<Rightarrow> 'p) \<Rightarrow> (uuid \<Rightarrow> 'x \<Rightarrow> 'r) \<Rightarrow> 'x list \<Rightarrow> store \<Rightarrow> int \<times> store" where
  "prisma_createMany m uniq mk items S =
     (case createMany_rows uniq mk items (tbl_rows m S, nextId S) of
        (c, T, n) \<Rightarrow> (c, (tbl_put m T S)\<lparr>nextId := n\<rparr>))"

text \<open>\<^verbatim>\<open>prisma.$transaction(ops)\<close>: the operations run in order; their results are returned.\<close>

fun transaction :: "(store \<Rightarrow> 'a \<times> store) list \<Rightarrow> store \<Rightarrow> 'a list \<times> store" where
  "transaction [] S = ([], S)"
| "transaction (op # ops) S =
     (case op S of (r, S1) \<Rightarrow> (case transaction ops S1 of (rs, S2) \<Rightarrow> (r # rs, S2)))"

text \<open>\<^verbatim>\<open>new Map(rows.map(r => [r.key, r.id]))\<close>: a later row with the same key wins.\<close>

definition lookupOf :: "('k, 'd) row list \<Rightarrow> ('k \<rightharpoonup> uuid)" where
  "lookupOf rs = fold (\<lambda>r m. m(row_key r \<mapsto> row_id r)) rs Map.empty"

definition sourceUrl :: string where
  "sourceUrl = ''https://conocer.gob.mx/conocer/#/renec''"

subsection \<open>Step 1: sectors\<close>

text \<open>
  The \<^verbatim>\<open>Map\<close> objects whose \<^verbatim>\<open>size\<close> the script reads are association lists in
  insertion order; \<^verbatim>\<open>set\<close> is \<open>AList.update\<close>, \<^verbatim>\<open>get\<close> is \<open>map_of\<close>.
\<close>

definition sectorMapOf :: "ExtractedEC list \<Rightarrow> (int \<times> string) list" where
  "sectorMapOf ecStandards =
     fold (\<lambda>ec sectorMap.
            case parseInt10 (idSectorProductivo ec) of
              NaN \<Rightarrow> sectorMap
            | Num sectorIdInt \<Rightarrow>
                if sectorIdInt \<in> fst ` set sectorMap then sectorMap
                else sectorMap @
                  [(sectorIdInt, orElse (secProductivo ec) (''Sector '' @ showInt sectorIdInt))])
       ecStandards []"

definition sectorData :: "runtime \<Rightarrow> timestamp \<Rightarrow> int \<times> string \<Rightarrow> SectorData" where
  "sectorData L now entry =
     \<lparr>sec_nombre = snd entry, sec_tipo = ''productivo'', sec_sourceUrl = sourceUrl,
      sec_contentHash = contentHash (stringify_sector L) (sha256_hex L) entry,
      sec_lastSyncedAt = now\<rparr>"

definition collectIds :: "('k, 'd) row list \<Rightarrow> ('k \<times> uuid) list \<Rightarrow> ('k \<times> uuid) list" where
  "collectIds results lookup =
     fold (\<lambda>result lk. AList.update (row_key result) (row_id result) lk) results lookup"

definition seedSectors ::
  "runtime \<Rightarrow> timestamp \<Rightarrow> ExtractedEC list \<Rightarrow> store \<Rightarrow> (int \<times> uuid) list \<times> store" where
  "seedSectors L now ecStandards S =
     forBatches 50 (sectorMapOf ecStandards)
       (\<lambda>batch st.
          case transaction
                 (map (\<lambda>entry. prisma_upsert renecSector_model (fst entry) (sectorData L now entry))
                    batch) (snd st) of
            (results, S') \<Rightarrow> (collectIds results (fst st), S'))
       0 ([], S)"

subsection \<open>Step 2: committees\<close>

definition committeeData ::
  "runtime \<Rightarrow> timestamp \<Rightarrow> (int \<times> uuid) list \<Rightarrow> ExtractedCommittee \<Rightarrow> CommitteeData" where
  "committeeData L now sectorLookup committee =
     \<lparr>com_nombre = orElse (nombre committee) [],
      com_presidente = presidente committee,
      com_vicepresidente = vicepresidente committee,
      com_puestoPresidente = puestoPresidente committee,
      com_puestoVicepresidente = puestoVicepresidente committee,
      com_contacto = contacto committee,
      com_correo = correo committee,
      com_telefonos = telefonos committee,
      com_url = url committee,
      com_calleNumero = calleNumero committee,
      com_colonia = colonia committee,
      com_codigoPostal = map_option showInt (codigoPostal committee),
      com_localidad = localidad committee,
      com_delegacion = delegacionStr committee,
      com_entidad = entidadStr committee,
      com_fechaIntegracion = fechaIntegracion committee,
      com_idTipoComite = idTipoComite committee,
      com_sectorId =
        (case c_idSectorProductivo committee of
           None \<Rightarrow> None
         | Some i \<Rightarrow> map_of sectorLookup i),
      com_sourceUrl = sourceUrl,
      com_contentHash = contentHash (stringify_committee L) (sha256_hex L) committee,
      com_lastSyncedAt = now\<rparr>"

definition seedCommittees ::
  "runtime \<Rightarrow> timestamp \<Rightarrow> ExtractedCommittee list \<Rightarrow> (int \<times> uuid) list \<Rightarrow> store \<Rightarrow>
   (string \<times> uuid) list \<times> store" where
  "seedCommittees L now committees sectorLookup S =
     forBatches 50 committees
       (\<lambda>batch st.
          case transaction
                 (map (\<lambda>committee.
                         prisma_upsert renecCommittee_model (clave committee)
                           (committeeData L now sectorLookup committee))
                    batch) (snd st) of
            (results, S') \<Rightarrow> (collectIds results (fst st), S'))
       0 ([], S)"

subsection \<open>Step 3: standards and their occupations\<close>

definition buildCompetenciasJson ::
  "ExtractedEC \<Rightarrow> ExtractedCommittee option \<Rightarrow> ECDetail option \<Rightarrow> Competencias" where
  "buildCompetenciasJson ec committee ecDetail =
     \<lparr>comp_comite = orNull (comite ec),
      comp_idSectorProductivo = orNull (idSectorProductivo ec),
      comp_idEstandarCompetencia = orNull (idEstandarCompetencia ec),
      comp_committee =
        map_option
          (\<lambda>c. \<lparr>cs_committeeKey = orNull (clave c),
                cs_committeeName = orNull (nombre c),
                cs_committeePresident = optOrNull (presidente c),
                cs_committeeContact = optOrNull (correo c),
                cs_committeeSector = optOrNull (sectorProductivoStr c),
                cs_committeeState = optOrNull (entidadStr c)\<rparr>)
          committee,
      comp_detail =
        map_option
          (\<lambda>d. \<lparr>ds_occupations = det_occupations d, ds_courses = det_courses d,
                ds_committeeMembers = det_committee_members d\<rparr>)
          ecDetail\<rparr>"

text \<open>\<^verbatim>\<open>committeeKey ? f(committeeKey) : null\<close>: an absent or empty key is falsy.\<close>

definition whenKey :: "string option \<Rightarrow> (string \<Rightarrow> 'a option) \<Rightarrow> 'a option" where
  "whenKey committeeKey f =
     (case committeeKey of None \<Rightarrow> None | Some k \<Rightarrow> if k = [] then None else f k)"

definition ecData ::
  "runtime \<Rightarrow> timestamp \<Rightarrow> ExtractedCommittee list \<Rightarrow> (string \<times> ECDetail) list option \<Rightarrow>
   (int \<times> uuid) list \<Rightarrow> (string \<times> uuid) list \<Rightarrow> ec_index \<Rightarrow> ExtractedEC \<Rightarrow> ECData" where
  "ecData L now committees ecDetailsLookup sectorLookup committeeLookup ecToCommitteeKey ec =
     (let ecClave = codigo ec;
          committeeKey = ecToCommitteeKey ecClave;
          committeeDbId = whenKey committeeKey (map_of committeeLookup);
          sectorDbId =
            (case parseInt10 (idSectorProductivo ec) of
               NaN \<Rightarrow> None
             | Num sectorIdInt \<Rightarrow> map_of sectorLookup sectorIdInt);
          ecDetail = (case ecDetailsLookup of None \<Rightarrow> None | Some d \<Rightarrow> map_of d ecClave);
          committeeRecord = whenKey committeeKey (\<lambda>k. find (\<lambda>c. clave c = k) committees)
      in \<lparr>ec_titulo = orElse (titulo ec) [],
          ec_version = ''01'',
          ec_vigente = True,
          ec_sector = orNull (secProductivo ec),
          ec_nivelCompetencia = (if nivel ec \<noteq> [] then Some (parseInt10 (nivel ec)) else None),
          ec_proposito = None,
          ec_committeeId = committeeDbId,
          ec_sectorId = sectorDbId,
          ec_competencias = buildCompetenciasJson ec committeeRecord ecDetail,
          ec_elementosJson = [],
          ec_critDesempeno = [],
          ec_critConocimiento = [],
          ec_critProducto = [],
          ec_sourceUrl = sourceUrl,
          ec_contentHash = contentHash (stringify_ec L) (sha256_hex L) ec,
          ec_lastSyncedAt = now\<rparr>)"

text \<open>
  The operation queued for one standard: a record without a code becomes the no-op query
  \<^verbatim>\<open>SELECT 1\<close>, whose result carries no \<^verbatim>\<open>ecClave\<close> (\<open>None\<close>).
\<close>

definition ecOp ::
  "(ExtractedEC \<Rightarrow> ECData) \<Rightarrow> ExtractedEC \<Rightarrow> store \<Rightarrow> (string, ECData) row option \<times> store" where
  "ecOp dataOf ec S =
     (if codigo ec = [] then (None, S)
      else (case prisma_upsert renecEC_model (codigo ec) (dataOf ec) S of
              (r, S') \<Rightarrow> (Some r, S')))"

definition collectEcIds ::
  "(string, ECData) row option list \<Rightarrow> (string \<rightharpoonup> uuid) \<Rightarrow> (string \<rightharpoonup> uuid)" where
  "collectEcIds results ecDbIds =
     fold (\<lambda>result m. case result of None \<Rightarrow> m | Some r \<Rightarrow> m(row_key r \<mapsto> row_id r))
       results ecDbIds"

definition occupationPairsOf ::
  "(string \<times> ECDetail) list \<Rightarrow> (string \<rightharpoonup> uuid) \<Rightarrow> (uuid \<times> string) list" where
  "occupationPairsOf ecDetailsLookup ecDbIds =
     concat
       (map (\<lambda>entry.
               case ecDbIds (fst entry) of
                 None \<Rightarrow> []
               | Some ecDbId \<Rightarrow>
                   map (\<lambda>occupation. (ecDbId, trim occupation))
                     (filter (\<lambda>occupation. occupation \<noteq> [] \<and> 0 < length (trim occupation))
                        (det_occupations (snd entry))))
          ecDetailsLookup)"

definition mkOccupation :: "uuid \<Rightarrow> uuid \<times> string \<Rightarrow> RenecECOccupation" where
  "mkOccupation n p = \<lparr>occ_id = n, occ_ecId = fst p, occ_occupation = snd p\<rparr>"

definition occ_uniq :: "RenecECOccupation \<Rightarrow> uuid \<times> string" where
  "occ_uniq r = (occ_ecId r, occ_occupation r)"

definition seedOccupations :: "(uuid \<times> string) list \<Rightarrow> store \<Rightarrow> int \<times> store" where
  "seedOccupations occupationPairs S =
     forBatches 200 occupationPairs
       (\<lambda>batch st.
          case prisma_createMany renecECOccupation_model occ_uniq mkOccupation batch (snd st) of
            (count, S') \<Rightarrow> (fst st + count, S'))
       0 (0, S)"

record ECSeedResult =
  ecs_created :: int
  ecs_updated :: int
  ecs_skipped :: int

definition seedECStandards ::
  "runtime \<Rightarrow> timestamp \<Rightarrow> ExtractedEC list \<Rightarrow> ExtractedCommittee list \<Rightarrow>
   (string \<times> ECDetail) list option \<Rightarrow> (int \<times> uuid) list \<Rightarrow> (string \<times> uuid) list \<Rightarrow>
   ec_index option \<Rightarrow> store \<Rightarrow> ECSeedResult \<times> ec_index option \<times> store" where
  "seedECStandards L now ecStandards committees ecDetailsLookup sectorLookup committeeLookup
     cache S =
     (case buildEcToCommitteeKeyIndex committees cache of
        (ecToCommitteeKey, cache') \<Rightarrow>
          (case forBatches 100 ecStandards
                  (\<lambda>batch st.
                     case transaction
                            (map (ecOp (ecData L now committees ecDetailsLookup sectorLookup
                                     committeeLookup ecToCommitteeKey)) batch)
                            (snd st) of
                       (results, S') \<Rightarrow>
                         ((collectEcIds results (fst (fst st)),
                           snd (fst st) + int (length batch)), S'))
                  0 ((Map.empty, 0), S) of
             (acc, S1) \<Rightarrow>
               (\<lparr>ecs_created = snd acc, ecs_updated = 0, ecs_skipped = 0\<rparr>, cache',
                (case ecDetailsLookup of
                   None \<Rightarrow> S1
                 | Some d \<Rightarrow> snd (seedOccupations (occupationPairsOf d (fst acc)) S1)))))"

subsection \<open>Steps 4 and 5: certifiers and centers\<close>

definition certifierData :: "runtime \<Rightarrow> timestamp \<Rightarrow> ExtractedCertifier \<Rightarrow> CertifierData" where
  "certifierData L now cert =
     \<lparr>crt_razonSocial = orElse (cert_canonical_name cert) [],
      crt_nombreComercial = None,
      crt_activo = True,
      crt_tipo = resolveCertifierTipo (entity_type cert),
      crt_alternateNames = cert_alternate_names cert,
      crt_normalizedKey = Some (cert_normalized_key cert),
      crt_sourceUrl = sourceUrl,
      crt_contentHash = contentHash (stringify_certifier L) (sha256_hex L) cert,
      crt_lastSyncedAt = now\<rparr>"

definition seedCertifiers ::
  "runtime \<Rightarrow> timestamp \<Rightarrow> ExtractedCertifier list \<Rightarrow> store \<Rightarrow> int \<times> store" where
  "seedCertifiers L now registry S =
     forBatches 50 registry
       (\<lambda>batch st.
          case transaction
                 (map (\<lambda>cert. prisma_upsert renecCertifier_model (cert_id cert)
                                (certifierData L now cert)) batch) (snd st) of
            (results, S') \<Rightarrow> (fst st + int (length batch), S'))
       0 (0, S)"

definition centerData :: "runtime \<Rightarrow> timestamp \<Rightarrow> ExtractedCenter \<Rightarrow> CenterData" where
  "centerData L now center =
     \<lparr>cen_nombre = orElse (center_canonical_name center) [],
      cen_activo = True,
      cen_alternateNames = center_alternate_names center,
      cen_normalizedKey = Some (center_normalized_key center),
      cen_sourceUrl = sourceUrl,
      cen_contentHash = contentHash (stringify_center L) (sha256_hex L) center,
      cen_lastSyncedAt = now\<rparr>"

definition seedCenters ::
  "runtime \<Rightarrow> timestamp \<Rightarrow> ExtractedCenter list \<Rightarrow> store \<Rightarrow> int \<times> store" where
  "seedCenters L now registry S =
     forBatches 50 registry
       (\<lambda>batch st.
          case transaction
                 (map (\<lambda>center. prisma_upsert renecCenter_model (center_id center)
                                  (centerData L now center)) batch) (snd st) of
            (results, S') \<Rightarrow> (fst st + int (length batch), S'))
       0 (0, S)"

subsection \<open>Steps 6 and 7: accreditations and center offerings\<close>

record JoinResult =
  created :: int
  skipped :: int

definition mkAccreditation :: "uuid \<Rightarrow> uuid \<times> uuid \<Rightarrow> RenecAccreditation" where
  "mkAccreditation n p = \<lparr>acc_id = n, acc_certifierId = snd p, acc_ecId = fst p, acc_vigente = True\<rparr>"

definition acc_uniq :: "RenecAccreditation \<Rightarrow> uuid \<times> uuid" where
  "acc_uniq r = (acc_ecId r, acc_certifierId r)"

text \<open>
  The collection loop of \<^verbatim>\<open>seedAccreditations\<close>: the state is the list \<^verbatim>\<open>pairs\<close> (each
  pair is \<open>(ecId, certifierId)\<close>) and the counter \<^verbatim>\<open>skipped\<close>. An entry whose standard
  is not in the store is passed over by \<^verbatim>\<open>continue\<close>, without counting.
\<close>

definition accreditationPairs ::
  "(string \<rightharpoonup> uuid) \<Rightarrow> (string \<rightharpoonup> uuid) \<Rightarrow> (string \<times> MatrixEntry) list \<Rightarrow>
   (uuid \<times> uuid) list \<times> int" where
  "accreditationPairs ecLookup certLookup mx =
     fold (\<lambda>entry st.
            case ecLookup (fst entry) of
              None \<Rightarrow> st
            | Some ecId \<Rightarrow>
                fold (\<lambda>eceId st'.
                       case certLookup eceId of
                         None \<Rightarrow> (fst st', snd st' + 1)
                       | Some certifierId \<Rightarrow> (fst st' @ [(ecId, certifierId)], snd st'))
                  (ece_ids (snd entry)) st)
       mx ([], 0)"

definition seedAccreditations :: "(string \<times> MatrixEntry) list \<Rightarrow> store \<Rightarrow> JoinResult \<times> store" where
  "seedAccreditations mx S =
     (let ecLookup = lookupOf (renecEC S);
          certLookup = lookupOf (renecCertifier S);
          collected = accreditationPairs ecLookup certLookup mx;
          pairs = fst collected;
          inserted =
            forBatches 200 pairs
              (\<lambda>batch st.
                 case prisma_createMany renecAccreditation_model acc_uniq mkAccreditation batch
                        (snd st) of
                   (count, S') \<Rightarrow> (fst st + count, S'))
              0 (0, S)
      in (\<lparr>created = fst inserted, skipped = int (length pairs) - fst inserted\<rparr>, snd inserted))"

definition mkOffering :: "uuid \<Rightarrow> uuid \<times> uuid \<Rightarrow> RenecCenterOffering" where
  "mkOffering n p = \<lparr>off_id = n, off_centerId = fst p, off_ecId = snd p, off_activo = True\<rparr>"

definition off_uniq :: "RenecCenterOffering \<Rightarrow> uuid \<times> uuid" where
  "off_uniq r = (off_centerId r, off_ecId r)"

text \<open>The collection loop of \<^verbatim>\<open>seedCenterOfferings\<close>; each pair is \<open>(centerId, ecId)\<close>.\<close>

definition offeringPairs ::
  "(string \<rightharpoonup> uuid) \<Rightarrow> (string \<rightharpoonup> uuid) \<Rightarrow> ExtractedCenter list \<Rightarrow>
   (uuid \<times> uuid) list \<times> int" where
  "offeringPairs ecLookup centerLookup registry =
     fold (\<lambda>center st.
            case centerLookup (center_id center) of
              None \<Rightarrow> st
            | Some centerDbId \<Rightarrow>
                fold (\<lambda>ecCode st'.
                       case ecLookup ecCode of
                         None \<Rightarrow> (fst st', snd st' + 1)
                       | Some ecId \<Rightarrow> (fst st' @ [(centerDbId, ecId)], snd st'))
                  (ec_codes center) st)
       registry ([], 0)"

definition seedCenterOfferings :: "ExtractedCenter list \<Rightarrow> store \<Rightarrow> JoinResult \<times> store" where
  "seedCenterOfferings registry S =
     (let ecLookup = lookupOf (renecEC S);
          centerLookup = lookupOf (renecCenter S);
          collected = offeringPairs ecLookup centerLookup registry;
          pairs = fst collected;
          inserted =
            forBatches 200 pairs
              (\<lambda>batch st.
                 case prisma_createMany renecCenterOffering_model off_uniq mkOffering batch
                        (snd st) of
                   (count, S') \<Rightarrow> (fst st + count, S'))
              0 (0, S)
      in (\<lparr>created = fst inserted,
           skipped = int (length pairs) - fst inserted + snd collected\<rparr>, snd inserted))"

subsection \<open>The sync job record\<close>

text \<open>
  \<^verbatim>\<open>stats\<close> is the object of per-step counts, as the list of its entries.
  \<^verbatim>\<open>startTime\<close> is read when the process starts, \<open>now\<close> when the record is written.
\<close>

definition createSyncJobRecord :: "(string \<times> int) list \<Rightarrow> timestamp \<Rightarrow> timestamp \<Rightarrow> store \<Rightarrow> store" where
  "createSyncJobRecord stats startTime now S =
     (let totalProcessed = foldl (\<lambda>a b. a + b) 0 (map snd stats)
      in S\<lparr>renecSyncJob := renecSyncJob S @
             [\<lparr>job_id = nextId S, jobType = ''FULL_SYNC'', job_status = ''COMPLETED'',
               startedAt = startTime, completedAt = now,
               itemsProcessed = totalProcessed, itemsCreated = totalProcessed,
               itemsUpdated = 0, itemsSkipped = 0, job_errors = []\<rparr>],
           nextId := Suc (nextId S)\<rparr>)"

subsection \<open>The seed script's main function\<close>

text \<open>
  The state threaded through the steps of \<^verbatim>\<open>main\<close> once the standards are loaded: the
  \<^verbatim>\<open>stats\<close> object and the store. The first component of the result of \<open>main\<close> is the
  process exit code: \<open>1\<close> from \<^verbatim>\<open>process.exit(1)\<close>, \<open>0\<close> when \<^verbatim>\<open>main\<close> returns. The data
  directory is \<open>None\<close> when it does not exist. The module-level cache is empty when the
  process starts.
\<close>

definition stepsStandards ::
  "runtime \<Rightarrow> timestamp \<Rightarrow> ExtractedEC list \<Rightarrow> ExtractedCommittee list \<Rightarrow>
   ECCertifiersAllFile option \<Rightarrow> store \<Rightarrow> (string \<times> int) list \<times> store" where
  "stepsStandards L now validEcStandards validCommittees ecCertifiersAll S =
     (case seedSectors L now validEcStandards S of
        (sectorLookup, S1) \<Rightarrow>
          (let stats1 = [(''sectors'', int (length sectorLookup))] in
           if 0 < length validCommittees then
             (case seedCommittees L now validCommittees sectorLookup S1 of
                (committeeLookup, S2) \<Rightarrow>
                  (case seedECStandards L now validEcStandards validCommittees
                          (map_option ec_details ecCertifiersAll) sectorLookup committeeLookup
                          None S2 of
                     (ecResult, cache', S3) \<Rightarrow>
                       (stats1 @ [(''committees'', int (length committeeLookup)),
                                  (''ecStandards'', ecs_created ecResult)], S3)))
           else
             (case seedECStandards L now validEcStandards validCommittees
                     (map_option ec_details ecCertifiersAll) sectorLookup [] None S1 of
                (ecResult, cache', S3) \<Rightarrow>
                  (stats1 @ [(''ecStandards'', ecs_created ecResult)], S3))))"

definition stepCertifiers ::
  "runtime \<Rightarrow> timestamp \<Rightarrow> CertifierRegistryFile option \<Rightarrow> (string \<times> int) list \<times> store \<Rightarrow>
   (string \<times> int) list \<times> store" where
  "stepCertifiers L now certifierRegistry st =
     (case certifierRegistry of
        None \<Rightarrow> st
      | Some f \<Rightarrow>
          (case seedCertifiers L now (cert_registry f) (snd st) of
             (certCount, S') \<Rightarrow> (fst st @ [(''certifiers'', certCount)], S')))"

definition stepCenters ::
  "runtime \<Rightarrow> timestamp \<Rightarrow> CenterRegistryFile option \<Rightarrow> (string \<times> int) list \<times> store \<Rightarrow>
   (string \<times> int) list \<times> store" where
  "stepCenters L now centerRegistry st =
     (case centerRegistry of
        None \<Rightarrow> st
      | Some f \<Rightarrow>
          (case seedCenters L now (center_registry f) (snd st) of
             (centerCount, S') \<Rightarrow> (fst st @ [(''centers'', centerCount)], S')))"

definition stepAccreditations ::
  "ECECEMatrixFile option \<Rightarrow> (string \<times> int) list \<times> store \<Rightarrow> (string \<times> int) list \<times> store" where
  "stepAccreditations eceMatrix st =
     (case eceMatrix of
        None \<Rightarrow> st
      | Some f \<Rightarrow>
          (case seedAccreditations (matrix f) (snd st) of
             (accResult, S') \<Rightarrow> (fst st @ [(''accreditations'', created accResult)], S')))"

definition stepCenterOfferings ::
  "CenterRegistryFile option \<Rightarrow> (string \<times> int) list \<times> store \<Rightarrow> (string \<times> int) list \<times> store" where
  "stepCenterOfferings centerRegistry st =
     (case centerRegistry of
        None \<Rightarrow> st
      | Some f \<Rightarrow>
          (case seedCenterOfferings (center_registry f) (snd st) of
             (offerResult, S') \<Rightarrow> (fst st @ [(''centerOfferings'', created offerResult)], S')))"

definition runSteps ::
  "runtime \<Rightarrow> timestamp \<Rightarrow> dataDir \<Rightarrow> ExtractedEC list \<Rightarrow> store \<Rightarrow> (string \<times> int) list \<times> store" where
  "runSteps L now dir ecStandards S =
     stepCenterOfferings (loadJsonFile (master_ccap_registry dir))
       (stepAccreditations (loadJsonFile (ec_ece_matrix dir))
          (stepCenters L now (loadJsonFile (master_ccap_registry dir))
             (stepCertifiers L now (loadJsonFile (master_ece_registry dir))
                (stepsStandards L now ecStandards
                   (case loadJsonFile (committees_complete dir) of None \<Rightarrow> [] | Some cs \<Rightarrow> cs)
                   (loadJsonFile (ec_certifiers_all dir)) S))))"

definition main :: "runtime \<Rightarrow> timestamp \<Rightarrow> timestamp \<Rightarrow> dataDir option \<Rightarrow> store \<Rightarrow> int \<times> store" where
  "main L startTime now extracted S =
     (case extracted of
        None \<Rightarrow> (1, S)
      | Some dir \<Rightarrow>
          (case loadJsonFile (ec_standards_api dir) of
             None \<Rightarrow> (1, S)
           | Some ecStandards \<Rightarrow>
               if length ecStandards = 0 then (1, S)
               else (case runSteps L now dir ecStandards S of
                       (stats, S') \<Rightarrow> (0, createSyncJobRecord stats startTime now S'))))"

section \<open>The coverage validation script\<close>

datatype Status = PASS | WARN | FAIL

record ValidationResult =
  check :: string
  status :: Status
  detail :: string




text \<open>\<^verbatim>\<open>/^EC\d{4}(\.\d{2})?$/.test(s)\<close>.\<close>

definition ecCodeRegex_test :: "string \<Rightarrow> bool" where
  "ecCodeRegex_test s \<longleftrightarrow>
     take 2 s = ''EC'' \<and>
     (let r = drop 2 s in
        (length r = 4 \<and> list_all isDigit r) \<or>
        (length r = 7 \<and> list_all isDigit (take 4 r) \<and> r ! 4 = CHR ''.'' \<and>
         list_all isDigit (drop 5 r)))"

text \<open>
  The format check: the codes it prints (at most ten) and the result it records.
\<close>

definition formatCheck :: "store \<Rightarrow> string list \<times> ValidationResult" where
  "formatCheck S =
     (let invalidCodes = filter (\<lambda>ec. \<not> ecCodeRegex_test (row_key ec)) (renecEC S) in
      if length invalidCodes = 0
      then ([], \<lparr>check = ''EC code format'', status = PASS, detail = ''All codes valid''\<rparr>)
      else (map row_key (take 10 invalidCodes),
            \<lparr>check = ''EC code format'', status = WARN,
             detail = showInt (int (length invalidCodes)) @ '' codes with non-standard format''\<rparr>))"












subsection \<open>Table-level view of the write loops\<close>

text \<open>
  A sequence of upserts on the rows of one table: the rows returned and the table after.
\<close>

fun upserts ::
  "('k \<times> 'd) list \<Rightarrow> ('k, 'd) row list \<times> uuid \<Rightarrow>
   ('k, 'd) row list \<times> ('k, 'd) row list \<times> uuid" where
  "upserts [] T = ([], T)"
| "upserts (kd # kds) T =
     (case upsert (fst kd) (snd kd) T of
        (r, T1) \<Rightarrow> (case upserts kds T1 of (rs, T2) \<Rightarrow> (r # rs, T2)))"

text \<open>A model reads back what it wrote and leaves the identifier counter alone.\<close>

definition lawful :: "'r model \<Rightarrow> bool" where
  "lawful m \<longleftrightarrow>
     (\<forall>T S. tbl_rows m (tbl_put m T S) = T) \<and>
     (\<forall>T T' S. tbl_put m T (tbl_put m T' S) = tbl_put m T S) \<and>
     (\<forall>S. tbl_put m (tbl_rows m S) S = S) \<and>
     (\<forall>T S n. tbl_put m T (S\<lparr>nextId := n\<rparr>) = (tbl_put m T S)\<lparr>nextId := n\<rparr>) \<and>
     (\<forall>S n. tbl_rows m (S\<lparr>nextId := n\<rparr>) = tbl_rows m S) \<and>
     (\<forall>T S. nextId (tbl_put m T S) = nextId S)"

text \<open>The identifier of the first row with a given key.\<close>

definition keyId :: "('k, 'd) row list \<Rightarrow> 'k \<Rightarrow> uuid option" where
  "keyId rs k = map_option row_id (find (\<lambda>r. row_key r = k) rs)"

text \<open>The keys and data that the upsert loops of the five entity steps write, in order.\<close>

definition sectorOps :: "runtime \<Rightarrow> timestamp \<Rightarrow> ExtractedEC list \<Rightarrow> (int \<times> SectorData) list" where
  "sectorOps L now ecStandards =
     map (\<lambda>entry. (fst entry, sectorData L now entry)) (sectorMapOf ecStandards)"

definition committeeOps ::
  "runtime \<Rightarrow> timestamp \<Rightarrow> (int \<times> uuid) list \<Rightarrow> ExtractedCommittee list \<Rightarrow>
   (string \<times> CommitteeData) list" where
  "committeeOps L now sectorLookup committees =
     map (\<lambda>committee. (clave committee, committeeData L now sectorLookup committee)) committees"

definition ecOps :: "(ExtractedEC \<Rightarrow> ECData) \<Rightarrow> ExtractedEC list \<Rightarrow> (string \<times> ECData) list" where
  "ecOps dataOf ecStandards =
     map (\<lambda>ec. (codigo ec, dataOf ec)) (filter (\<lambda>ec. codigo ec \<noteq> []) ecStandards)"

definition certifierOps ::
  "runtime \<Rightarrow> timestamp \<Rightarrow> ExtractedCertifier list \<Rightarrow> (string \<times> CertifierData) list" where
  "certifierOps L now registry = map (\<lambda>cert. (cert_id cert, certifierData L now cert)) registry"

definition centerOps ::
  "runtime \<Rightarrow> timestamp \<Rightarrow> ExtractedCenter list \<Rightarrow> (string \<times> CenterData) list" where
  "centerOps L now registry =
     map (\<lambda>center. (center_id center, centerData L now center)) registry"

text \<open>
  Views of the entity rows: the natural key with the identifier, and the row without its
  synchronisation time.
\<close>

definition idView :: "('k, 'd) row list \<Rightarrow> ('k \<times> uuid) list" where
  "idView rs = map (\<lambda>r. (row_key r, row_id r)) rs"

definition rowsModulo :: "('d \<Rightarrow> 'd) \<Rightarrow> ('k, 'd) row list \<Rightarrow> ('k, 'd) row list" where
  "rowsModulo e rs = map (\<lambda>r. r\<lparr>row_data := e (row_data r)\<rparr>) rs"

definition sectorsView :: "store \<Rightarrow> (int, SectorData) row list" where
  "sectorsView S = rowsModulo (\<lambda>d. d\<lparr>sec_lastSyncedAt := 0\<rparr>) (renecSector S)"

definition committeesView :: "store \<Rightarrow> (string, CommitteeData) row list" where
  "committeesView S = rowsModulo (\<lambda>d. d\<lparr>com_lastSyncedAt := 0\<rparr>) (renecCommittee S)"

definition standardsView :: "store \<Rightarrow> (string, ECData) row list" where
  "standardsView S = rowsModulo (\<lambda>d. d\<lparr>ec_lastSyncedAt := 0\<rparr>) (renecEC S)"

definition certifiersView :: "store \<Rightarrow> (string, CertifierData) row list" where
  "certifiersView S = rowsModulo (\<lambda>d. d\<lparr>crt_lastSyncedAt := 0\<rparr>) (renecCertifier S)"

definition centersView :: "store \<Rightarrow> (string, CenterData) row list" where
  "centersView S = rowsModulo (\<lambda>d. d\<lparr>cen_lastSyncedAt := 0\<rparr>) (renecCenter S)"

text \<open>
  The identifiers that a loop collects from the rows its upserts return, read off the
  table as it is after the loop: as the association list of steps 1 and 2 and as the map
  of step 3.
\<close>

definition resultIds :: "'k list \<Rightarrow> ('k, 'd) row list \<Rightarrow> ('k \<times> uuid) list" where
  "resultIds keys rows = map (\<lambda>k. (k, the (keyId rows k))) keys"

definition idLookup :: "'k list \<Rightarrow> ('k, 'd) row list \<Rightarrow> ('k \<times> uuid) list" where
  "idLookup keys rows = fold (\<lambda>p. AList.update (fst p) (snd p)) (resultIds keys rows) []"

definition idMap :: "'k list \<Rightarrow> ('k, 'd) row list \<Rightarrow> ('k \<rightharpoonup> uuid)" where
  "idMap keys rows = fold (\<lambda>p m. m(fst p \<mapsto> snd p)) (resultIds keys rows) Map.empty"

subsection \<open>Notions of the specification\<close>

text \<open>
  The specification's code pattern (two upper-case letters, four digits, optionally a dot
  and two digits), written after its words, for comparison with \<open>ecCodeRegex_test\<close>.
\<close>

definition specCodePattern :: "string \<Rightarrow> bool" where
  "specCodePattern s \<longleftrightarrow>
     length (take 2 s) = 2 \<and> list_all (\<lambda>c. c \<in> set ''ABCDEFGHIJKLMNOPQRSTUVWXYZ'') (take 2 s) \<and>
     (let r = drop 2 s in
        (length r = 4 \<and> list_all isDigit r) \<or>
        (length r = 7 \<and> list_all isDigit (take 4 r) \<and> r ! 4 = CHR ''.'' \<and>
         list_all isDigit (drop 5 r)))"

text \<open>
  The pairs the accreditation pass attempts, after the specification's words: every
  (standard code, certifier id) entry of the matrix.
\<close>

definition pairsAttempted :: "(string \<times> MatrixEntry) list \<Rightarrow> int" where
  "pairsAttempted mx = sum_list (map (\<lambda>entry. int (length (ece_ids (snd entry)))) mx)"

subsection \<open>Sample records\<close>

text \<open>A committee with a key and a list of associated standard codes, all else blank.\<close>

definition sampleCommittee :: "string \<Rightarrow> string list \<Rightarrow> ExtractedCommittee" where
  "sampleCommittee k codes =
     \<lparr>clave = k, nombre = k, presidente = None, vicepresidente = None, calleNumero = None,
      colonia = None, codigoPostal = None, localidad = None, telefonos = None, correo = None,
      url = None, c_idSectorProductivo = None, sectorProductivoStr = None,
      puestoPresidente = None, puestoVicepresidente = None, fechaIntegracion = None,
      idTipoComite = None, contacto = None, delegacionStr = None, entidadStr = None,
      estandaresAsociados = map (\<lambda>c. \<lparr>ea_codigo = c, ea_titulo = []\<rparr>) codes, c_id = 0\<rparr>"

text \<open>A standard record with a code and a sector identifier, all else empty.\<close>

definition sampleEC :: "string \<Rightarrow> string \<Rightarrow> ExtractedEC" where
  "sampleEC code sector =
     \<lparr>idEstandarCompetencia = [], idSectorProductivo = sector, codigo = code, nivel = [],
      titulo = [], comite = [], secProductivo = []\<rparr>"

text \<open>A runtime whose serialiser returns the empty string and whose digest is the identity.\<close>

definition sampleRuntime :: runtime where
  "sampleRuntime =
     \<lparr>sha256_hex = (\<lambda>s. s), stringify_sector = (\<lambda>x. []), stringify_committee = (\<lambda>x. []),
      stringify_ec = (\<lambda>x. []), stringify_certifier = (\<lambda>x. []), stringify_center = (\<lambda>x. [])\<rparr>"

text \<open>A data directory that holds the standard list only.\<close>

definition standardsOnly :: "ExtractedEC list source_file \<Rightarrow> dataDir" where
  "standardsOnly f =
     \<lparr>ec_standards_api = f, ec_ece_matrix = Missing, master_ece_registry = Missing,
      master_ccap_registry = Missing, committees_complete = Missing,
      ec_certifiers_all = Missing\<rparr>"

text \<open>A row of the standards table with the given identifier and code.\<close>

definition sampleECRow :: "uuid \<Rightarrow> string \<Rightarrow> (string, ECData) row" where
  "sampleECRow i code =
     \<lparr>row_id = i, row_key = code,
      row_data = ecData sampleRuntime 0 [] None [] [] Map.empty (sampleEC code [])\<rparr>"

text \<open>A data directory whose standard list is given and whose other files are empty.\<close>

definition emptyRegistries :: "ExtractedEC list \<Rightarrow> dataDir" where
  "emptyRegistries ecs =
     \<lparr>ec_standards_api = Content ecs,
      ec_ece_matrix = Content \<lparr>mx_generated_at = [], total_ecs = 0, matrix = []\<rparr>,
      master_ece_registry =
        Content \<lparr>certs_generated_at = [], certs_total_count = 0, cert_registry = []\<rparr>,
      master_ccap_registry =
        Content \<lparr>centers_generated_at = [], centers_total_count = 0, center_registry = []\<rparr>,
      committees_complete = Content [],
      ec_certifiers_all = Content \<lparr>extraction_date = [], failed_ecs = [], ec_details = []\<rparr>\<rparr>"

text \<open>
  A data directory with the standard list and a matrix, the other files missing.
\<close>

definition standardsAndMatrix :: "ExtractedEC list \<Rightarrow> (string \<times> MatrixEntry) list \<Rightarrow> dataDir" where
  "standardsAndMatrix ecs mx =
     \<lparr>ec_standards_api = Content ecs,
      ec_ece_matrix = Content \<lparr>mx_generated_at = [], total_ecs = 0, matrix = mx\<rparr>,
      master_ece_registry = Missing, master_ccap_registry = Missing,
      committees_complete = Missing, ec_certifiers_all = Missing\<rparr>"

text \<open>
  A data directory with all six files: the standard \<open>EC0249\<close> of sector \<open>5\<close>, a committee
  that lists it, one certifier, one center that offers it and an unknown standard, a
  matrix entry with that certifier and an unknown one, and two occupation labels of which
  the second is blank.
\<close>

definition sampleFull :: dataDir where
  "sampleFull =
     \<lparr>ec_standards_api = Content [sampleEC ''EC0249'' ''5''],
      ec_ece_matrix =
        Content \<lparr>mx_generated_at = [], total_ecs = 1,
          matrix = [(''EC0249'',
            \<lparr>ece_ids = [''ECE-00001'', ''ECE-00002''], ece_count = 2, title = []\<rparr>)]\<rparr>,
      master_ece_registry =
        Content \<lparr>certs_generated_at = [], certs_total_count = 1,
          cert_registry =
            [\<lparr>cert_id = ''ECE-00001'', cert_canonical_name = ''Colegio'',
              cert_alternate_names = [], cert_normalized_key = ''colegio'',
              entity_type = ''Unknown'', cert_ec_codes = [''EC0249'']\<rparr>]\<rparr>,
      master_ccap_registry =
        Content \<lparr>centers_generated_at = [], centers_total_count = 1,
          center_registry =
            [\<lparr>center_id = ''CCAP-00001'', center_canonical_name = ''Centro'',
              center_alternate_names = [], center_normalized_key = ''centro'',
              ec_codes = [''EC0249'', ''EC9999''], ec_count = 2\<rparr>]\<rparr>,
      committees_complete = Content [sampleCommittee ''CGC-A'' [''EC0249'']],
      ec_certifiers_all =
        Content \<lparr>extraction_date = [], failed_ecs = [],
          ec_details =
            [(''EC0249'',
              \<lparr>det_title = [], det_certifiers = [], det_courses = [],
               det_occupations = [''Instructor'', '' ''], det_committee_members = []\<rparr>)]\<rparr>\<rparr>"

section \<open>Properties\<close>

subsection \<open>Substring search\<close>

lemma startsWith_iff: "startsWith s sub \<longleftrightarrow> (\<exists>q. s = sub @ q)"
  by (induction s sub rule: startsWith.induct) auto

lemma str_includes_iff: "str_includes s sub \<longleftrightarrow> (\<exists>p q. s = p @ sub @ q)"
proof (induction s)
  case Nil
  show ?case by (cases sub) auto
next
  case (Cons x xs)
  show ?case
  proof
    assume "str_includes (x # xs) sub"
    then consider "startsWith (x # xs) sub" | "str_includes xs sub" by auto
    then show "\<exists>p q. x # xs = p @ sub @ q"
    proof cases
      case 1
      then obtain q where "x # xs = sub @ q" using startsWith_iff by blast
      then have "x # xs = [] @ sub @ q" by simp
      then show ?thesis by blast
    next
      case 2
      then obtain p q where "xs = p @ sub @ q" using Cons.IH by blast
      then have "x # xs = (x # p) @ sub @ q" by simp
      then show ?thesis by blast
    qed
  next
    assume "\<exists>p q. x # xs = p @ sub @ q"
    then obtain p q where pq: "x # xs = p @ sub @ q" by blast
    show "str_includes (x # xs) sub"
    proof (cases p)
      case Nil
      with pq have "startsWith (x # xs) sub" using startsWith_iff by auto
      then show ?thesis by simp
    next
      case (Cons y ys)
      with pq have "xs = ys @ sub @ q" by simp
      then have "str_includes xs sub" using Cons.IH by blast
      then show ?thesis by simp
    qed
  qed
qed

subsection \<open>The certifier kind\<close>

text \<open>
  C7. \<open>resolveCertifierTipo\<close> is a total function into the two-valued type
  \<open>CertifierTipo\<close>. It returns \<open>OC\<close> exactly when the upper-cased input contains
  \<open>OC\<close> or \<open>GOBIERNO\<close>, and \<open>ECE\<close> for every other input, the empty string included.
\<close>

theorem resolveCertifierTipo_keyword:
  "(resolveCertifierTipo entityType = OC \<longleftrightarrow>
      (\<exists>p q. toUpperCase entityType = p @ ''OC'' @ q) \<or>
      (\<exists>p q. toUpperCase entityType = p @ ''GOBIERNO'' @ q)) \<and>
   (resolveCertifierTipo entityType = ECE \<longleftrightarrow>
      \<not> ((\<exists>p q. toUpperCase entityType = p @ ''OC'' @ q) \<or>
         (\<exists>p q. toUpperCase entityType = p @ ''GOBIERNO'' @ q))) \<and>
   resolveCertifierTipo [] = ECE \<and>
   resolveCertifierTipo ''Unknown'' = ECE \<and>
   resolveCertifierTipo ''Gobierno Federal'' = OC"
proof -
  have a: "resolveCertifierTipo entityType =
      (if (\<exists>p q. toUpperCase entityType = p @ ''OC'' @ q) \<or>
          (\<exists>p q. toUpperCase entityType = p @ ''GOBIERNO'' @ q) then OC else ECE)"
    unfolding resolveCertifierTipo_def Let_def str_includes_iff by simp
  have b: "resolveCertifierTipo [] = ECE"
    by (simp add: resolveCertifierTipo_def toUpperCase_def)
  have c: "resolveCertifierTipo ''Unknown'' = ECE"
    by (simp add: resolveCertifierTipo_def toUpperCase_def upper_char_def)
  have d: "resolveCertifierTipo ''Gobierno Federal'' = OC"
    by (simp add: resolveCertifierTipo_def toUpperCase_def upper_char_def)
  show ?thesis using a b c d by (simp split: if_splits)
qed

subsection \<open>The reverse index and its cache\<close>

lemma fold_assoc_apply:
  "fold (\<lambda>ea m'. if ea_codigo ea \<noteq> [] then m'(ea_codigo ea \<mapsto> k) else m') eas m code =
     (if code \<noteq> [] \<and> code \<in> ea_codigo ` set eas then Some k else m code)"
  by (induction eas arbitrary: m) auto

lemma index_committee_apply:
  "index_committee c m code =
     (if code \<noteq> [] \<and> code \<in> ea_codigo ` set (estandaresAsociados c) then Some (clave c)
      else m code)"
  unfolding index_committee_def by (rule fold_assoc_apply)

lemma fold_index_unclaimed:
  "\<forall>c \<in> set ys. code \<notin> ea_codigo ` set (estandaresAsociados c) \<Longrightarrow>
   fold index_committee ys m code = m code"
  by (induction ys arbitrary: m) (simp_all add: index_committee_apply)

lemma fold_index_last_claim:
  assumes "code \<noteq> []" and "code \<in> ea_codigo ` set (estandaresAsociados b)"
    and "\<forall>c \<in> set ys. code \<notin> ea_codigo ` set (estandaresAsociados c)"
  shows "fold index_committee (xs @ b # ys) m code = Some (clave b)"
proof -
  have "fold index_committee (xs @ b # ys) m code =
        fold index_committee ys (index_committee b (fold index_committee xs m)) code"
    by simp
  also have "\<dots> = index_committee b (fold index_committee xs m) code"
    using assms(3) by (rule fold_index_unclaimed)
  also have "\<dots> = Some (clave b)"
    using assms(1,2) by (simp add: index_committee_apply)
  finally show ?thesis .
qed

text \<open>
  C10. Starting from the empty module-level cache, a first call with \<open>c1\<close> builds the
  index from \<open>c1\<close> and stores it; a second call with any \<open>c2\<close> returns that same index
  and leaves the cache as it is, so \<open>c2\<close> is ignored. In the index built from \<open>c1\<close>, a
  standard code claimed by several committees is bound to the committee that comes last in
  the list among those claiming it.
\<close>

theorem buildEcToCommitteeKeyIndex_cache:
  "fst (buildEcToCommitteeKeyIndex c1 None) = fold index_committee c1 Map.empty \<and>
   buildEcToCommitteeKeyIndex c2 (snd (buildEcToCommitteeKeyIndex c1 None)) =
     buildEcToCommitteeKeyIndex c1 None \<and>
   (c1 = xs @ a # mid @ b # ys \<and> code \<noteq> [] \<and>
    code \<in> ea_codigo ` set (estandaresAsociados a) \<and>
    code \<in> ea_codigo ` set (estandaresAsociados b) \<and>
    (\<forall>c \<in> set ys. code \<notin> ea_codigo ` set (estandaresAsociados c)) \<longrightarrow>
    fst (buildEcToCommitteeKeyIndex c1 None) code = Some (clave b))"
proof (intro conjI impI)
  show "fst (buildEcToCommitteeKeyIndex c1 None) = fold index_committee c1 Map.empty"
    by (simp add: buildEcToCommitteeKeyIndex_def Let_def)
  show "buildEcToCommitteeKeyIndex c2 (snd (buildEcToCommitteeKeyIndex c1 None)) =
     buildEcToCommitteeKeyIndex c1 None"
    by (simp add: buildEcToCommitteeKeyIndex_def Let_def)
next
  assume h: "c1 = xs @ a # mid @ b # ys \<and> code \<noteq> [] \<and>
    code \<in> ea_codigo ` set (estandaresAsociados a) \<and>
    code \<in> ea_codigo ` set (estandaresAsociados b) \<and>
    (\<forall>c \<in> set ys. code \<notin> ea_codigo ` set (estandaresAsociados c))"
  then have "c1 = (xs @ a # mid) @ b # ys" by simp
  then have "fold index_committee c1 Map.empty code = Some (clave b)"
    using h fold_index_last_claim [of code b ys "xs @ a # mid" Map.empty] by simp
  then show "fst (buildEcToCommitteeKeyIndex c1 None) code = Some (clave b)"
    by (simp add: buildEcToCommitteeKeyIndex_def Let_def)
qed

theorem buildEcToCommitteeKeyIndex_cache_witness:
  "fst (buildEcToCommitteeKeyIndex
          [sampleCommittee ''CGC-A'' [''EC0249''], sampleCommittee ''CGC-B'' [''EC0249'']]
          None) ''EC0249'' = Some ''CGC-B'' \<and>
   fst (buildEcToCommitteeKeyIndex [sampleCommittee ''CGC-Z'' [''EC0001'']]
     (snd (buildEcToCommitteeKeyIndex
          [sampleCommittee ''CGC-A'' [''EC0249''], sampleCommittee ''CGC-B'' [''EC0249'']]
          None))) ''EC0001'' = None"
  using buildEcToCommitteeKeyIndex_cache
    [of "[sampleCommittee ''CGC-A'' [''EC0249''], sampleCommittee ''CGC-B'' [''EC0249'']]"
        "[sampleCommittee ''CGC-Z'' [''EC0001'']]"
        "[]" "sampleCommittee ''CGC-A'' [''EC0249'']" "[]"
        "sampleCommittee ''CGC-B'' [''EC0249'']" "[]" "''EC0249''"]
  by (simp add: sampleCommittee_def index_committee_def)

subsection \<open>Evaluation rules\<close>

lemmas client_defs = prisma_upsert_def upsert_def prisma_createMany_def
  renecSector_model_def renecCommittee_model_def renecEC_model_def renecCertifier_model_def
  renecCenter_model_def renecECOccupation_model_def renecAccreditation_model_def
  renecCenterOffering_model_def lookupOf_def collectIds_def collectEcIds_def

lemmas js_defs = parseInt10_def isWhiteSpace_def isDigit_def digitValue_def showInt_def
  orElse_def orNull_def optOrNull_def trim_def Let_def

subsection \<open>The validator's format check\<close>

lemma ecCodeRegex_test_iff:
  "ecCodeRegex_test s \<longleftrightarrow>
     (\<exists>ds. length ds = 4 \<and> list_all isDigit ds \<and> s = ''EC'' @ ds) \<or>
     (\<exists>ds fs. length ds = 4 \<and> list_all isDigit ds \<and> length fs = 2 \<and> list_all isDigit fs \<and>
        s = ''EC'' @ ds @ ''.'' @ fs)"
proof
  assume h: "ecCodeRegex_test s"
  then have p: "take 2 s = ''EC''" by (simp add: ecCodeRegex_test_def)
  have s: "s = ''EC'' @ drop 2 s" using p append_take_drop_id [of 2 s] by simp
  define r where "r = drop 2 s"
  from h consider "length r = 4 \<and> list_all isDigit r"
    | "length r = 7 \<and> list_all isDigit (take 4 r) \<and> r ! 4 = CHR ''.'' \<and> list_all isDigit (drop 5 r)"
    unfolding ecCodeRegex_test_def r_def Let_def by blast
  then show "(\<exists>ds. length ds = 4 \<and> list_all isDigit ds \<and> s = ''EC'' @ ds) \<or>
     (\<exists>ds fs. length ds = 4 \<and> list_all isDigit ds \<and> length fs = 2 \<and> list_all isDigit fs \<and>
        s = ''EC'' @ ds @ ''.'' @ fs)"
  proof cases
    case 1
    then show ?thesis using s r_def by auto
  next
    case 2
    have "r = take 4 r @ drop 4 r" by simp
    moreover have "drop 4 r = r ! 4 # drop 5 r"
      using 2 Cons_nth_drop_Suc [of 4 r] by simp
    ultimately have "r = take 4 r @ ''.'' @ drop 5 r" using 2 by simp
    then have "s = ''EC'' @ take 4 r @ ''.'' @ drop 5 r" using s r_def by simp
    moreover have "length (take 4 r) = 4" "length (drop 5 r) = 2" using 2 by simp_all
    ultimately show ?thesis using 2 by blast
  qed
next
  assume "(\<exists>ds. length ds = 4 \<and> list_all isDigit ds \<and> s = ''EC'' @ ds) \<or>
     (\<exists>ds fs. length ds = 4 \<and> list_all isDigit ds \<and> length fs = 2 \<and> list_all isDigit fs \<and>
        s = ''EC'' @ ds @ ''.'' @ fs)"
  then show "ecCodeRegex_test s"
    by (auto simp: ecCodeRegex_test_def Let_def nth_append)
qed

text \<open>
  C1 (as amended). The format check tests every persisted standard code against
  \<open>EC\<close>, four digits and optionally a dot and two digits. It prints the non-conforming
  codes, at most ten; its status is \<open>WARN\<close> exactly when a non-conforming code exists,
  \<open>PASS\<close> exactly when none does, and never \<open>FAIL\<close>.
\<close>

theorem formatCheck_EC_prefix:
  "(ecCodeRegex_test s \<longleftrightarrow>
     (\<exists>ds. length ds = 4 \<and> list_all isDigit ds \<and> s = ''EC'' @ ds) \<or>
     (\<exists>ds fs. length ds = 4 \<and> list_all isDigit ds \<and> length fs = 2 \<and> list_all isDigit fs \<and>
        s = ''EC'' @ ds @ ''.'' @ fs)) \<and>
   fst (formatCheck S) = take 10 (filter (\<lambda>k. \<not> ecCodeRegex_test k) (map row_key (renecEC S))) \<and>
   (status (snd (formatCheck S)) = WARN \<longleftrightarrow> (\<exists>k \<in> set (map row_key (renecEC S)). \<not> ecCodeRegex_test k)) \<and>
   (status (snd (formatCheck S)) = PASS \<longleftrightarrow> (\<forall>k \<in> set (map row_key (renecEC S)). ecCodeRegex_test k)) \<and>
   status (snd (formatCheck S)) \<noteq> FAIL"
proof -
  have a: "take 10 (filter (\<lambda>k. \<not> ecCodeRegex_test k) (map row_key (renecEC S))) =
      map row_key (take 10 (filter (\<lambda>ec. \<not> ecCodeRegex_test (row_key ec)) (renecEC S)))"
    by (simp add: filter_map take_map o_def)
  have b: "fst (formatCheck S) = take 10 (filter (\<lambda>k. \<not> ecCodeRegex_test k) (map row_key (renecEC S)))"
    unfolding a by (simp add: formatCheck_def Let_def)
  have c: "(filter (\<lambda>ec. \<not> ecCodeRegex_test (row_key ec)) (renecEC S) = []) \<longleftrightarrow>
        (\<forall>k \<in> set (map row_key (renecEC S)). ecCodeRegex_test k)"
    by (auto simp: filter_empty_conv)
  show ?thesis
    using b c ecCodeRegex_test_iff [of s] by (auto simp: formatCheck_def Let_def)
qed

theorem formatCheck_EC_prefix_witness:
  "status (snd (formatCheck (emptyStore\<lparr>renecEC := [sampleECRow 0 ''EC0249'', sampleECRow 1 ''EC0076.01'']\<rparr>))) = PASS \<and>
   fst (formatCheck (emptyStore\<lparr>renecEC := [sampleECRow 0 ''EC0249'', sampleECRow 1 ''ec9'']\<rparr>)) = [''ec9'']"
  using formatCheck_EC_prefix [of "''EC0249''" "emptyStore\<lparr>renecEC := [sampleECRow 0 ''EC0249'', sampleECRow 1 ''EC0076.01'']\<rparr>"]
    formatCheck_EC_prefix [of "''EC0249''" "emptyStore\<lparr>renecEC := [sampleECRow 0 ''EC0249'', sampleECRow 1 ''ec9'']\<rparr>"]
  by (simp add: sampleECRow_def emptyStore_def ecCodeRegex_test_def isDigit_def Let_def)

text \<open>
  C1 as stated fails: the code \<open>AB1234\<close> conforms to the specification's pattern (two
  upper-case letters, four digits), yet a store whose only standard has that code gets
  status \<open>WARN\<close> and the code is listed.
\<close>

theorem formatCheck_spec_pattern_counterexample:
  "specCodePattern ''AB1234'' \<and>
   status (snd (formatCheck (emptyStore\<lparr>renecEC := [sampleECRow 0 ''AB1234'']\<rparr>))) = WARN \<and>
   fst (formatCheck (emptyStore\<lparr>renecEC := [sampleECRow 0 ''AB1234'']\<rparr>)) = [''AB1234'']"
  by (simp add: specCodePattern_def formatCheck_def sampleECRow_def emptyStore_def
      ecCodeRegex_test_def isDigit_def Let_def)

subsection \<open>The validator's count check and exit code\<close>







subsection \<open>Concrete runs\<close>

lemmas main_defs = main_def loadJsonFile_def runSteps_def stepCenterOfferings_def
  stepAccreditations_def stepCenters_def stepCertifiers_def stepsStandards_def
  seedSectors_def sectorMapOf_def seedCommittees_def seedECStandards_def
  buildEcToCommitteeKeyIndex_def ecOp_def seedOccupations_def occupationPairsOf_def
  seedCertifiers_def seedCenters_def seedAccreditations_def accreditationPairs_def
  seedCenterOfferings_def offeringPairs_def createSyncJobRecord_def

lemmas sample_defs = sampleEC_def sampleRuntime_def standardsOnly_def emptyRegistries_def
  emptyStore_def sampleECRow_def sampleCommittee_def standardsAndMatrix_def sampleFull_def

text \<open>
  C2 at a failing input. The store holds the standard \<open>EC0249\<close> and no certifier; the
  matrix lists one certifier for \<open>EC0249\<close>. One pair is attempted; the pass reports
  \<open>0\<close> created and \<open>0\<close> skipped, since the final assignment to \<^verbatim>\<open>skipped\<close> discards the
  count of unresolved certifiers.
\<close>

theorem seedAccreditations_unresolved_certifier:
  "pairsAttempted [(''EC0249'', \<lparr>ece_ids = [''ECE-00001''], ece_count = 1, title = []\<rparr>)] = 1 \<and>
   seedAccreditations [(''EC0249'', \<lparr>ece_ids = [''ECE-00001''], ece_count = 1, title = []\<rparr>)]
     (emptyStore\<lparr>renecEC := [sampleECRow 0 ''EC0249''], nextId := 1\<rparr>) =
   (\<lparr>created = 0, skipped = 0\<rparr>, emptyStore\<lparr>renecEC := [sampleECRow 0 ''EC0249''], nextId := 1\<rparr>)"
  by (simp add: pairsAttempted_def seedAccreditations_def accreditationPairs_def client_defs
      sampleECRow_def emptyStore_def Let_def)

text \<open>
  The offering pass keeps that count: a center present in the store with one unresolved
  standard code is reported as one skipped pair.
\<close>

lemma seedCenterOfferings_unresolved_standard:
  "fst (seedCenterOfferings
     [\<lparr>center_id = ''CCAP-00001'', center_canonical_name = [], center_alternate_names = [],
       center_normalized_key = [], ec_codes = [''EC0249''], ec_count = 1\<rparr>]
     (emptyStore\<lparr>renecCenter :=
        [\<lparr>row_id = 0, row_key = ''CCAP-00001'',
          row_data = centerData sampleRuntime 0
            \<lparr>center_id = ''CCAP-00001'', center_canonical_name = [], center_alternate_names = [],
             center_normalized_key = [], ec_codes = [''EC0249''], ec_count = 1\<rparr>\<rparr>],
        nextId := 1\<rparr>)) =
   \<lparr>created = 0, skipped = 1\<rparr>"
  by (simp add: seedCenterOfferings_def offeringPairs_def client_defs emptyStore_def Let_def)



subsection \<open>Batch loops and transactions\<close>

declare forBatches.simps [simp del]

lemma forBatches_whole:
  assumes pos: "0 < bsize"
    and nil: "\<And>s. body [] s = s"
    and app: "\<And>b1 b2 s. body (b1 @ b2) s = body b2 (body b1 s)"
  shows "forBatches bsize xs body i s = body (drop i xs) s"
  using pos nil app
proof (induction bsize xs body i s rule: forBatches.induct)
  case (1 bsize xs body i s)
  show ?case
  proof (cases "i < length xs \<and> 0 < bsize")
    case True
    have "forBatches bsize xs body i s =
          forBatches bsize xs body (i + bsize) (body (take bsize (drop i xs)) s)"
      by (subst forBatches.simps) (use True in auto)
    also have "\<dots> = body (drop (i + bsize) xs) (body (take bsize (drop i xs)) s)"
      using True 1 by simp
    also have "\<dots> = body (take bsize (drop i xs) @ drop bsize (drop i xs)) s"
      using "1.prems"(3) [of "take bsize (drop i xs)" "drop bsize (drop i xs)" s]
      by (simp add: add.commute)
    also have "\<dots> = body (drop i xs) s"
      by (simp only: append_take_drop_id)
    finally show ?thesis .
  next
    case False
    with "1.prems"(1) have "length xs \<le> i" by simp
    then have "drop i xs = []" by simp
    moreover have "forBatches bsize xs body i s = s"
      by (subst forBatches.simps) (use False in auto)
    ultimately show ?thesis using "1.prems"(2) by simp
  qed
qed

lemma transaction_append:
  "transaction (ops1 @ ops2) S =
     (fst (transaction ops1 S) @ fst (transaction ops2 (snd (transaction ops1 S))),
      snd (transaction ops2 (snd (transaction ops1 S))))"
  by (induction ops1 arbitrary: S) (simp_all add: case_prod_beta)

lemma length_transaction: "length (fst (transaction ops S)) = length ops"
  by (induction ops arbitrary: S) (simp_all add: case_prod_beta)

lemma transaction_loop:
  assumes pos: "0 < bsize"
    and acc_nil: "\<And>a. accf [] [] a = a"
    and acc_app: "\<And>r1 r2 b1 b2 a. length r1 = length b1 \<Longrightarrow>
        accf (r1 @ r2) (b1 @ b2) a = accf r2 b2 (accf r1 b1 a)"
  shows "forBatches bsize xs
           (\<lambda>batch st. case transaction (map op batch) (snd st) of
                          (results, S') \<Rightarrow> (accf results batch (fst st), S'))
           0 (a, S) =
         (accf (fst (transaction (map op xs) S)) xs a, snd (transaction (map op xs) S))"
proof -
  let ?body = "\<lambda>batch st. case transaction (map op batch) (snd st) of
                          (results, S') \<Rightarrow> (accf results batch (fst st), S')"
  have "forBatches bsize xs ?body 0 (a, S) = ?body (drop 0 xs) (a, S)"
  proof (rule forBatches_whole [OF pos])
    show "?body [] s = s" for s by (simp add: acc_nil)
  next
    show "?body (b1 @ b2) s = ?body b2 (?body b1 s)" for b1 b2 s
      by (simp add: transaction_append acc_app length_transaction case_prod_beta)
  qed
  then show ?thesis by (simp add: case_prod_beta)
qed

lemma transaction_upserts:
  assumes "lawful m"
  shows "transaction (map (\<lambda>x. prisma_upsert m (kf x) (df x)) xs) S =
     (fst (upserts (map (\<lambda>x. (kf x, df x)) xs) (tbl_rows m S, nextId S)),
      (tbl_put m (fst (snd (upserts (map (\<lambda>x. (kf x, df x)) xs) (tbl_rows m S, nextId S)))) S)
        \<lparr>nextId := snd (snd (upserts (map (\<lambda>x. (kf x, df x)) xs) (tbl_rows m S, nextId S)))\<rparr>)"
  using assms
proof (induction xs arbitrary: S)
  case Nil
  then show ?case by (simp add: lawful_def)
next
  case (Cons x xs)
  obtain r T n where u: "upsert (kf x) (df x) (tbl_rows m S, nextId S) = (r, T, n)"
    by (metis prod_cases3)
  let ?S1 = "(tbl_put m T S)\<lparr>nextId := n\<rparr>"
  have rows: "tbl_rows m ?S1 = T" and nid: "nextId ?S1 = n"
    using Cons.prems by (simp_all add: lawful_def)
  have put: "tbl_put m T' ?S1 = (tbl_put m T' S)\<lparr>nextId := n\<rparr>" for T'
    using Cons.prems by (simp add: lawful_def)
  show ?case
    using Cons.IH [OF Cons.prems, of ?S1] u
    by (simp add: prisma_upsert_def rows nid put split: prod.splits)
qed

lemma lawful_models:
  "lawful renecSector_model" "lawful renecCommittee_model" "lawful renecEC_model"
  "lawful renecCertifier_model" "lawful renecCenter_model" "lawful renecECOccupation_model"
  "lawful renecAccreditation_model" "lawful renecCenterOffering_model"
  by (simp_all add: lawful_def client_defs)

lemma createMany_rows_append:
  "createMany_rows uniq mk (xs @ ys) T =
     (fst (createMany_rows uniq mk xs T) +
        fst (createMany_rows uniq mk ys (snd (createMany_rows uniq mk xs T))),
      snd (createMany_rows uniq mk ys (snd (createMany_rows uniq mk xs T))))"
  by (induction xs arbitrary: T) (simp_all add: case_prod_beta)

lemma createMany_loop:
  assumes law: "lawful m" and pos: "0 < bsize"
  shows "forBatches bsize items
           (\<lambda>batch st. case prisma_createMany m uniq mk batch (snd st) of
                          (count, S') \<Rightarrow> (fst st + count, S'))
           0 (c0, S) =
         (c0 + fst (createMany_rows uniq mk items (tbl_rows m S, nextId S)),
          (tbl_put m (fst (snd (createMany_rows uniq mk items (tbl_rows m S, nextId S)))) S)
            \<lparr>nextId := snd (snd (createMany_rows uniq mk items (tbl_rows m S, nextId S)))\<rparr>)"
proof -
  let ?body = "\<lambda>batch st. case prisma_createMany m uniq mk batch (snd st) of
                          (count, S') \<Rightarrow> (fst st + count, S')"
  have rows: "tbl_rows m ((tbl_put m T S')\<lparr>nextId := n\<rparr>) = T" for T S' n
    using law by (simp add: lawful_def)
  have put: "tbl_put m T' ((tbl_put m T S')\<lparr>nextId := n\<rparr>) = (tbl_put m T' S')\<lparr>nextId := n\<rparr>"
    for T T' S' n
    using law by (simp add: lawful_def)
  have "forBatches bsize items ?body 0 (c0, S) = ?body (drop 0 items) (c0, S)"
  proof (rule forBatches_whole [OF pos])
    show "?body [] s = s" for s
      using law by (simp add: prisma_createMany_def lawful_def)
  next
    show "?body (b1 @ b2) s = ?body b2 (?body b1 s)" for b1 b2 s
      by (simp add: prisma_createMany_def createMany_rows_append case_prod_beta rows put)
  qed
  then show ?thesis by (simp add: prisma_createMany_def case_prod_beta)
qed

subsection \<open>Upserts on one table\<close>

lemma find_None_keys: "find (\<lambda>r. row_key r = k) rs = None \<longleftrightarrow> k \<notin> row_key ` set rs"
  by (auto simp: find_None_iff)

lemma upsert_present:
  "k \<in> row_key ` set rows \<Longrightarrow>
   snd (upsert k d (rows, n)) =
     (map (\<lambda>r. if row_key r = k then r\<lparr>row_data := d\<rparr> else r) rows, n)"
  using find_None_keys [of k rows] by (auto simp: upsert_def split: option.splits)

lemma upsert_absent:
  "k \<notin> row_key ` set rows \<Longrightarrow>
   snd (upsert k d (rows, n)) = (rows @ [\<lparr>row_id = n, row_key = k, row_data = d\<rparr>], Suc n)"
  using find_None_keys [of k rows] by (auto simp: upsert_def split: option.splits)

lemma keys_update:
  "row_key ` set (map (\<lambda>r. if row_key r = k then r\<lparr>row_data := d\<rparr> else r) rows) =
   row_key ` set rows"
proof -
  have "map row_key (map (\<lambda>r. if row_key r = k then r\<lparr>row_data := d\<rparr> else r) rows) =
        map row_key rows"
    by (induction rows) auto
  then show ?thesis by (metis set_map)
qed

lemma upsert_keys:
  "row_key ` set (fst (snd (upsert k d T))) = insert k (row_key ` set (fst T))"
proof (cases "k \<in> row_key ` set (fst T)")
  case True
  then show ?thesis
    using upsert_present [of k "fst T" d "snd T"] keys_update [of k d "fst T"] by auto
next
  case False
  then show ?thesis
    using upsert_absent [of k "fst T" d "snd T"] by auto
qed

lemma upserts_keys:
  "row_key ` set (fst (snd (upserts kds T))) = row_key ` set (fst T) \<union> fst ` set kds"
  by (induction kds arbitrary: T) (auto simp: case_prod_beta upsert_keys)

text \<open>The data a sequence of upserts leaves under a key: that of the last upsert of the key.\<close>

lemma lastData_Cons:
  "map_of (rev (kd # kds)) k =
     (case map_of (rev kds) k of Some d \<Rightarrow> Some d | None \<Rightarrow> if k = fst kd then Some (snd kd) else None)"
  by (cases kd) (simp add: map_add_def split: option.splits)

lemma upserts_present:
  "fst ` set kds \<subseteq> row_key ` set rows \<Longrightarrow>
   snd (upserts kds (rows, n)) =
     (map (\<lambda>r. case map_of (rev kds) (row_key r) of Some d \<Rightarrow> r\<lparr>row_data := d\<rparr> | None \<Rightarrow> r) rows,
      n)"
proof (induction kds arbitrary: rows)
  case Nil
  then show ?case by simp
next
  case (Cons kd kds)
  let ?rows1 = "map (\<lambda>r. if row_key r = fst kd then r\<lparr>row_data := snd kd\<rparr> else r) rows"
  have k: "fst kd \<in> row_key ` set rows" using Cons.prems by simp
  have u: "snd (upsert (fst kd) (snd kd) (rows, n)) = (?rows1, n)"
    using k by (rule upsert_present)
  have keys: "row_key ` set ?rows1 = row_key ` set rows" by (rule keys_update)
  have "fst ` set kds \<subseteq> row_key ` set ?rows1" using Cons.prems keys by simp
  from Cons.IH [OF this] u
  show ?case
    by (simp add: case_prod_beta lastData_Cons del: rev.simps split: option.splits)
qed

lemma upserts_shape:
  "\<exists>newrows n'. snd (upserts kds (rows, n)) =
      (map (\<lambda>r. case map_of (rev kds) (row_key r) of Some d \<Rightarrow> r\<lparr>row_data := d\<rparr> | None \<Rightarrow> r) rows
         @ newrows, n') \<and>
     (\<forall>r \<in> set newrows. map_of (rev kds) (row_key r) = Some (row_data r))"
proof (induction kds arbitrary: rows n)
  case Nil
  then show ?case by simp
next
  case (Cons kd kds)
  let ?h = "\<lambda>kds r. case map_of (rev kds) (row_key r) of Some d \<Rightarrow> r\<lparr>row_data := d\<rparr> | None \<Rightarrow> r"
  show ?case
  proof (cases "fst kd \<in> row_key ` set rows")
    case True
    let ?rows1 = "map (\<lambda>r. if row_key r = fst kd then r\<lparr>row_data := snd kd\<rparr> else r) rows"
    have u: "snd (upsert (fst kd) (snd kd) (rows, n)) = (?rows1, n)"
      using True by (rule upsert_present)
    obtain newrows n' where
      s: "snd (upserts kds (?rows1, n)) = (map (?h kds) ?rows1 @ newrows, n')"
      and nr: "\<forall>r \<in> set newrows. map_of (rev kds) (row_key r) = Some (row_data r)"
      using Cons.IH [of ?rows1 n] by blast
    have m: "map (?h kds) ?rows1 = map (?h (kd # kds)) rows"
      by (simp add: lastData_Cons del: rev.simps split: option.splits)
    have "snd (upserts (kd # kds) (rows, n)) = (map (?h (kd # kds)) rows @ newrows, n')"
      using u s m by (simp add: case_prod_beta del: rev.simps)
    moreover have "\<forall>r \<in> set newrows. map_of (rev (kd # kds)) (row_key r) = Some (row_data r)"
      using nr by (simp add: lastData_Cons del: rev.simps)
    ultimately show ?thesis by blast
  next
    case False
    let ?new = "\<lparr>row_id = n, row_key = fst kd, row_data = snd kd\<rparr>"
    have u: "snd (upsert (fst kd) (snd kd) (rows, n)) = (rows @ [?new], Suc n)"
      using False by (rule upsert_absent)
    obtain newrows n' where
      s: "snd (upserts kds (rows @ [?new], Suc n)) = (map (?h kds) (rows @ [?new]) @ newrows, n')"
      and nr: "\<forall>r \<in> set newrows. map_of (rev kds) (row_key r) = Some (row_data r)"
      using Cons.IH [of "rows @ [?new]" "Suc n"] by blast
    have m: "map (?h kds) rows = map (?h (kd # kds)) rows"
      using False by (auto simp: lastData_Cons image_iff simp del: rev.simps split: option.splits)
    have "snd (upserts (kd # kds) (rows, n)) =
            (map (?h (kd # kds)) rows @ (?h kds ?new # newrows), n')"
      using u s m by (simp add: case_prod_beta del: rev.simps)
    moreover have "\<forall>r \<in> set (?h kds ?new # newrows).
        map_of (rev (kd # kds)) (row_key r) = Some (row_data r)"
      using nr by (auto simp: lastData_Cons simp del: rev.simps split: option.splits)
    ultimately show ?thesis by blast
  qed
qed

lemma upserts_data:
  assumes "r \<in> set (fst (snd (upserts kds T)))" and "map_of (rev kds) (row_key r) = Some d"
  shows "row_data r = d"
proof -
  obtain newrows n' where
    s: "snd (upserts kds (fst T, snd T)) =
      (map (\<lambda>r. case map_of (rev kds) (row_key r) of Some d \<Rightarrow> r\<lparr>row_data := d\<rparr> | None \<Rightarrow> r) (fst T)
         @ newrows, n')"
    and nr: "\<forall>r \<in> set newrows. map_of (rev kds) (row_key r) = Some (row_data r)"
    using upserts_shape [of kds "fst T" "snd T"] by blast
  from assms(1) s consider
    r0 where "r0 \<in> set (fst T)"
      "r = (case map_of (rev kds) (row_key r0) of Some d \<Rightarrow> r0\<lparr>row_data := d\<rparr> | None \<Rightarrow> r0)"
    | "r \<in> set newrows"
    by auto
  then show ?thesis
  proof cases
    case 1
    then show ?thesis using assms(2) by (auto split: option.splits)
  next
    case 2
    then show ?thesis using nr assms(2) by auto
  qed
qed

lemma lastData_rel:
  "list_all2 (\<lambda>a b. fst a = fst b \<and> e (snd a) = e (snd b)) xs ys \<Longrightarrow>
   rel_option (\<lambda>d1 d2. e d1 = e d2) (map_of xs k) (map_of ys k)"
  by (induction xs ys rule: list_all2_induct) auto

lemma upserts_again:
  assumes rel: "list_all2 (\<lambda>a b. fst a = fst b \<and> e (snd a) = e (snd b)) kds1 kds2"
  shows "snd (snd (upserts kds2 (fst (snd (upserts kds1 T)), n))) = n \<and>
         idView (fst (snd (upserts kds2 (fst (snd (upserts kds1 T)), n)))) =
           idView (fst (snd (upserts kds1 T))) \<and>
         rowsModulo e (fst (snd (upserts kds2 (fst (snd (upserts kds1 T)), n)))) =
           rowsModulo e (fst (snd (upserts kds1 T)))"
proof -
  let ?rows1 = "fst (snd (upserts kds1 T))"
  let ?h = "\<lambda>r. case map_of (rev kds2) (row_key r) of Some d \<Rightarrow> r\<lparr>row_data := d\<rparr> | None \<Rightarrow> r"
  have keys: "map fst kds2 = map fst kds1"
    using rel by (induction kds1 kds2 rule: list_all2_induct) auto
  then have "fst ` set kds2 = fst ` set kds1" by (metis set_map)
  then have "fst ` set kds2 \<subseteq> row_key ` set ?rows1" by (simp add: upserts_keys)
  then have s: "snd (upserts kds2 (?rows1, n)) = (map ?h ?rows1, n)"
    by (rule upserts_present)
  have rel': "list_all2 (\<lambda>a b. fst a = fst b \<and> e (snd a) = e (snd b)) (rev kds1) (rev kds2)"
    using rel by (simp add: list_all2_rev)
  have e: "e (row_data (?h r)) = e (row_data r)" if r: "r \<in> set ?rows1" for r
  proof (cases "map_of (rev kds2) (row_key r)")
    case None
    then show ?thesis by simp
  next
    case (Some d2)
    with lastData_rel [OF rel', of "row_key r"]
    obtain d1 where d1: "map_of (rev kds1) (row_key r) = Some d1" and ed: "e d1 = e d2"
      by (auto simp: option_rel_Some2)
    from upserts_data [OF r d1] have "row_data r = d1" .
    with Some ed show ?thesis by simp
  qed
  have i: "row_id (?h r) = row_id r \<and> row_key (?h r) = row_key r" for r
    by (simp split: option.splits)
  have m: "(?h r)\<lparr>row_data := e (row_data (?h r))\<rparr> = r\<lparr>row_data := e (row_data r)\<rparr>"
    if "r \<in> set ?rows1" for r
    using e [OF that] by (cases "map_of (rev kds2) (row_key r)") simp_all
  have "idView (map ?h ?rows1) = idView ?rows1"
    unfolding idView_def by (simp add: i)
  moreover have "rowsModulo e (map ?h ?rows1) = rowsModulo e ?rows1"
    unfolding rowsModulo_def using m by simp
  ultimately show ?thesis using s by simp
qed

lemma keyId_idView: "keyId rs k = map_of (idView rs) k"
  by (induction rs) (auto simp: keyId_def idView_def)

lemma idView_update:
  "idView (map (\<lambda>r. if row_key r = k then r\<lparr>row_data := d\<rparr> else r) rows) = idView rows"
  by (induction rows) (auto simp: idView_def)

lemma keys_idView: "fst ` set (idView rows) = row_key ` set rows"
  by (auto simp: idView_def image_iff)

lemma idView_upsert:
  "idView (fst (snd (upsert k d T))) =
     (if k \<in> row_key ` set (fst T) then idView (fst T) else idView (fst T) @ [(k, snd T)])"
proof (cases "k \<in> row_key ` set (fst T)")
  case True
  then show ?thesis
    using upsert_present [of k "fst T" d "snd T"] by (simp add: idView_update)
next
  case False
  then show ?thesis
    using upsert_absent [of k "fst T" d "snd T"] by (simp add: idView_def)
qed

lemma upsert_result:
  "row_key (fst (upsert k d T)) = k \<and>
   keyId (fst (snd (upsert k d T))) k = Some (row_id (fst (upsert k d T)))"
proof (cases "find (\<lambda>r. row_key r = k) (fst T)")
  case None
  then have a: "k \<notin> row_key ` set (fst T)" by (simp add: find_None_keys)
  then have "map_of (idView (fst T)) k = None"
    by (simp add: map_of_eq_None_iff keys_idView)
  with a None show ?thesis
    by (simp add: keyId_idView idView_upsert map_add_def) (simp add: upsert_def)
next
  case (Some r)
  then have k: "row_key r = k" by (auto dest: find_Some_iff [THEN iffD1])
  have a: "k \<in> row_key ` set (fst T)"
    using Some find_None_keys [of k "fst T"] by auto
  have "keyId (fst T) k = Some (row_id r)" using Some by (simp add: keyId_def)
  with a Some k show ?thesis
    by (simp add: keyId_idView idView_upsert) (simp add: upsert_def)
qed

lemma keyId_upsert_mono:
  "keyId (fst T) k' = Some i \<Longrightarrow> keyId (fst (snd (upsert k d T))) k' = Some i"
  by (simp add: keyId_idView idView_upsert map_add_def)

lemma keyId_upserts_mono:
  "keyId (fst T) k' = Some i \<Longrightarrow> keyId (fst (snd (upserts kds T))) k' = Some i"
  by (induction kds arbitrary: T) (simp_all add: case_prod_beta keyId_upsert_mono)

lemma upserts_results:
  "idView (fst (upserts kds T)) =
     map (\<lambda>k. (k, the (keyId (fst (snd (upserts kds T))) k))) (map fst kds)"
proof (induction kds arbitrary: T)
  case Nil
  then show ?case by (simp add: idView_def)
next
  case (Cons kd kds)
  let ?T1 = "snd (upsert (fst kd) (snd kd) T)"
  have r: "row_key (fst (upsert (fst kd) (snd kd) T)) = fst kd"
    and i: "keyId (fst ?T1) (fst kd) = Some (row_id (fst (upsert (fst kd) (snd kd) T)))"
    using upsert_result [of "fst kd" "snd kd" T] by simp_all
  have "keyId (fst (snd (upserts kds ?T1))) (fst kd) =
        Some (row_id (fst (upsert (fst kd) (snd kd) T)))"
    using i by (rule keyId_upserts_mono)
  with r Cons.IH [of ?T1] show ?case
    by (simp add: case_prod_beta idView_def)
qed

lemma idView_keyId_cong: "idView rs = idView rs' \<Longrightarrow> keyId rs = keyId rs'"
  by (rule ext) (simp add: keyId_idView)

lemma collectIds_alt:
  "collectIds rs lk = fold (\<lambda>p. AList.update (fst p) (snd p)) (idView rs) lk"
  unfolding collectIds_def idView_def by (simp add: fold_map o_def)

lemma collectIds_idView:
  "idView rs = idView rs' \<Longrightarrow> collectIds rs lk = collectIds rs' lk"
  by (simp add: collectIds_alt)

lemma lookupOf_alt:
  "lookupOf rs = fold (\<lambda>p m. m(fst p \<mapsto> snd p)) (idView rs) Map.empty"
  unfolding lookupOf_def idView_def by (simp add: fold_map o_def)

lemma lookupOf_idView:
  "idView rs = idView rs' \<Longrightarrow> lookupOf rs = lookupOf rs'"
  by (simp add: lookupOf_alt)

subsection \<open>Batch inserts that skip duplicates\<close>

lemma createMany_rows_keys:
  assumes u: "\<And>n x. uniq (mk n x) = u x"
  shows "uniq ` set (fst (snd (createMany_rows uniq mk items T))) =
           uniq ` set (fst T) \<union> u ` set items"
  by (induction items arbitrary: T) (auto simp: case_prod_beta u)

lemma createMany_rows_present:
  assumes u: "\<And>n x. uniq (mk n x) = u x"
    and p: "u ` set items \<subseteq> uniq ` set rows"
  shows "createMany_rows uniq mk items (rows, n) = (0, rows, n)"
  using p by (induction items) (auto simp: u)

lemma createMany_rows_again:
  assumes u: "\<And>n x. uniq (mk n x) = u x"
  shows "createMany_rows uniq mk items
           (fst (snd (createMany_rows uniq mk items T)), n) =
         (0, fst (snd (createMany_rows uniq mk items T)), n)"
  using createMany_rows_present [of uniq mk u items "fst (snd (createMany_rows uniq mk items T))" n]
    createMany_rows_keys [of uniq mk u items T] u
  by simp

subsection \<open>The seed steps as table updates\<close>

lemma seedSectors_eq:
  "seedSectors L now ecStandards S =
     (collectIds (fst (upserts (sectorOps L now ecStandards) (renecSector S, nextId S))) [],
      S\<lparr>renecSector :=
          fst (snd (upserts (sectorOps L now ecStandards) (renecSector S, nextId S))),
        nextId :=
          snd (snd (upserts (sectorOps L now ecStandards) (renecSector S, nextId S)))\<rparr>)"
proof -
  have acc: "collectIds (r1 @ r2) a = collectIds r2 (collectIds r1 a)"
    for r1 r2 :: "(int, SectorData) row list" and a
    by (simp add: collectIds_def)
  have "seedSectors L now ecStandards S =
     (collectIds (fst (transaction
        (map (\<lambda>entry. prisma_upsert renecSector_model (fst entry) (sectorData L now entry))
           (sectorMapOf ecStandards)) S)) [],
      snd (transaction
        (map (\<lambda>entry. prisma_upsert renecSector_model (fst entry) (sectorData L now entry))
           (sectorMapOf ecStandards)) S))"
    unfolding seedSectors_def
    using transaction_loop [where accf = "\<lambda>results batch a. collectIds results a"
        and bsize = 50 and a = "[]" and S = S and xs = "sectorMapOf ecStandards"
        and op = "\<lambda>entry. prisma_upsert renecSector_model (fst entry) (sectorData L now entry)"]
    by (simp add: acc) (simp add: collectIds_def)
  then show ?thesis
    by (simp add: transaction_upserts [OF lawful_models(1)] sectorOps_def)
       (simp add: renecSector_model_def)
qed

lemma seedCommittees_eq:
  "seedCommittees L now committees sectorLookup S =
     (collectIds (fst (upserts (committeeOps L now sectorLookup committees)
                         (renecCommittee S, nextId S))) [],
      S\<lparr>renecCommittee :=
          fst (snd (upserts (committeeOps L now sectorLookup committees)
                      (renecCommittee S, nextId S))),
        nextId :=
          snd (snd (upserts (committeeOps L now sectorLookup committees)
                      (renecCommittee S, nextId S)))\<rparr>)"
proof -
  have acc: "collectIds (r1 @ r2) a = collectIds r2 (collectIds r1 a)"
    for r1 r2 :: "(string, CommitteeData) row list" and a
    by (simp add: collectIds_def)
  have "seedCommittees L now committees sectorLookup S =
     (collectIds (fst (transaction
        (map (\<lambda>committee. prisma_upsert renecCommittee_model (clave committee)
                (committeeData L now sectorLookup committee)) committees) S)) [],
      snd (transaction
        (map (\<lambda>committee. prisma_upsert renecCommittee_model (clave committee)
                (committeeData L now sectorLookup committee)) committees) S))"
    unfolding seedCommittees_def
    using transaction_loop [where accf = "\<lambda>results batch a. collectIds results a"
        and bsize = 50 and a = "[]" and S = S and xs = committees
        and op = "\<lambda>committee. prisma_upsert renecCommittee_model (clave committee)
                (committeeData L now sectorLookup committee)"]
    by (simp add: acc) (simp add: collectIds_def)
  then show ?thesis
    by (simp add: transaction_upserts [OF lawful_models(2)] committeeOps_def)
       (simp add: renecCommittee_model_def)
qed

lemma seedCertifiers_eq:
  "seedCertifiers L now registry S =
     (int (length registry),
      S\<lparr>renecCertifier :=
          fst (snd (upserts (certifierOps L now registry) (renecCertifier S, nextId S))),
        nextId :=
          snd (snd (upserts (certifierOps L now registry) (renecCertifier S, nextId S)))\<rparr>)"
proof -
  have "seedCertifiers L now registry S =
     (0 + int (length registry),
      snd (transaction (map (\<lambda>cert. prisma_upsert renecCertifier_model (cert_id cert)
                                (certifierData L now cert)) registry) S))"
    unfolding seedCertifiers_def
    using transaction_loop [where accf = "\<lambda>results batch a. a + int (length batch)"
        and bsize = 50 and a = 0 and S = S and xs = registry
        and op = "\<lambda>cert. prisma_upsert renecCertifier_model (cert_id cert)
                                (certifierData L now cert)"]
    by simp
  then show ?thesis
    by (simp add: transaction_upserts [OF lawful_models(4)] certifierOps_def)
       (simp add: renecCertifier_model_def)
qed

lemma seedCenters_eq:
  "seedCenters L now registry S =
     (int (length registry),
      S\<lparr>renecCenter :=
          fst (snd (upserts (centerOps L now registry) (renecCenter S, nextId S))),
        nextId :=
          snd (snd (upserts (centerOps L now registry) (renecCenter S, nextId S)))\<rparr>)"
proof -
  have "seedCenters L now registry S =
     (0 + int (length registry),
      snd (transaction (map (\<lambda>center. prisma_upsert renecCenter_model (center_id center)
                                (centerData L now center)) registry) S))"
    unfolding seedCenters_def
    using transaction_loop [where accf = "\<lambda>results batch a. a + int (length batch)"
        and bsize = 50 and a = 0 and S = S and xs = registry
        and op = "\<lambda>center. prisma_upsert renecCenter_model (center_id center)
                                (centerData L now center)"]
    by simp
  then show ?thesis
    by (simp add: transaction_upserts [OF lawful_models(5)] centerOps_def)
       (simp add: renecCenter_model_def)
qed

lemma seedAccreditations_eq:
  "seedAccreditations mx S =
     (\<lparr>created = fst (createMany_rows acc_uniq mkAccreditation
                       (fst (accreditationPairs (lookupOf (renecEC S))
                               (lookupOf (renecCertifier S)) mx))
                       (renecAccreditation S, nextId S)),
       skipped = int (length (fst (accreditationPairs (lookupOf (renecEC S))
                               (lookupOf (renecCertifier S)) mx))) -
                 fst (createMany_rows acc_uniq mkAccreditation
                       (fst (accreditationPairs (lookupOf (renecEC S))
                               (lookupOf (renecCertifier S)) mx))
                       (renecAccreditation S, nextId S))\<rparr>,
      S\<lparr>renecAccreditation :=
          fst (snd (createMany_rows acc_uniq mkAccreditation
                       (fst (accreditationPairs (lookupOf (renecEC S))
                               (lookupOf (renecCertifier S)) mx))
                       (renecAccreditation S, nextId S))),
        nextId :=
          snd (snd (createMany_rows acc_uniq mkAccreditation
                       (fst (accreditationPairs (lookupOf (renecEC S))
                               (lookupOf (renecCertifier S)) mx))
                       (renecAccreditation S, nextId S)))\<rparr>)"
  unfolding seedAccreditations_def Let_def
  by (simp add: createMany_loop [OF lawful_models(7)]) (simp add: renecAccreditation_model_def)

lemma seedCenterOfferings_eq:
  "seedCenterOfferings registry S =
     (\<lparr>created = fst (createMany_rows off_uniq mkOffering
                       (fst (offeringPairs (lookupOf (renecEC S))
                               (lookupOf (renecCenter S)) registry))
                       (renecCenterOffering S, nextId S)),
       skipped = int (length (fst (offeringPairs (lookupOf (renecEC S))
                               (lookupOf (renecCenter S)) registry))) -
                 fst (createMany_rows off_uniq mkOffering
                       (fst (offeringPairs (lookupOf (renecEC S))
                               (lookupOf (renecCenter S)) registry))
                       (renecCenterOffering S, nextId S)) +
                 snd (offeringPairs (lookupOf (renecEC S)) (lookupOf (renecCenter S)) registry)\<rparr>,
      S\<lparr>renecCenterOffering :=
          fst (snd (createMany_rows off_uniq mkOffering
                       (fst (offeringPairs (lookupOf (renecEC S))
                               (lookupOf (renecCenter S)) registry))
                       (renecCenterOffering S, nextId S))),
        nextId :=
          snd (snd (createMany_rows off_uniq mkOffering
                       (fst (offeringPairs (lookupOf (renecEC S))
                               (lookupOf (renecCenter S)) registry))
                       (renecCenterOffering S, nextId S)))\<rparr>)"
  unfolding seedCenterOfferings_def Let_def
  by (simp add: createMany_loop [OF lawful_models(8)]) (simp add: renecCenterOffering_model_def)

lemma seedOccupations_eq:
  "seedOccupations pairs S =
     (fst (createMany_rows occ_uniq mkOccupation pairs (renecECOccupation S, nextId S)),
      S\<lparr>renecECOccupation :=
          fst (snd (createMany_rows occ_uniq mkOccupation pairs (renecECOccupation S, nextId S))),
        nextId :=
          snd (snd (createMany_rows occ_uniq mkOccupation pairs (renecECOccupation S, nextId S)))\<rparr>)"
  unfolding seedOccupations_def
  by (simp add: createMany_loop [OF lawful_models(6)]) (simp add: renecECOccupation_model_def)

lemma transaction_ecOp:
  "snd (transaction (map (ecOp dataOf) xs) S) =
     snd (transaction (map (\<lambda>ec. prisma_upsert renecEC_model (codigo ec) (dataOf ec))
                         (filter (\<lambda>ec. codigo ec \<noteq> []) xs)) S) \<and>
   collectEcIds (fst (transaction (map (ecOp dataOf) xs) S)) m =
     fold (\<lambda>r m. m(row_key r \<mapsto> row_id r))
       (fst (transaction (map (\<lambda>ec. prisma_upsert renecEC_model (codigo ec) (dataOf ec))
                            (filter (\<lambda>ec. codigo ec \<noteq> []) xs)) S)) m"
  by (induction xs arbitrary: S m) (simp_all add: ecOp_def collectEcIds_def case_prod_beta)

lemma seedECStandards_eq:
  "seedECStandards L now ecStandards committees ecDetailsLookup sectorLookup committeeLookup
     None S =
   (\<lparr>ecs_created = int (length ecStandards), ecs_updated = 0, ecs_skipped = 0\<rparr>,
    Some (fold index_committee committees Map.empty),
    (case ecDetailsLookup of
       None \<Rightarrow>
         S\<lparr>renecEC :=
             fst (snd (upserts (ecOps (ecData L now committees ecDetailsLookup sectorLookup
                         committeeLookup (fold index_committee committees Map.empty))
                         ecStandards) (renecEC S, nextId S))),
           nextId :=
             snd (snd (upserts (ecOps (ecData L now committees ecDetailsLookup sectorLookup
                         committeeLookup (fold index_committee committees Map.empty))
                         ecStandards) (renecEC S, nextId S)))\<rparr>
     | Some d \<Rightarrow>
         snd (seedOccupations
           (occupationPairsOf d
              (lookupOf (fst (upserts (ecOps (ecData L now committees ecDetailsLookup
                         sectorLookup committeeLookup (fold index_committee committees Map.empty))
                         ecStandards) (renecEC S, nextId S)))))
           (S\<lparr>renecEC :=
             fst (snd (upserts (ecOps (ecData L now committees ecDetailsLookup sectorLookup
                         committeeLookup (fold index_committee committees Map.empty))
                         ecStandards) (renecEC S, nextId S))),
           nextId :=
             snd (snd (upserts (ecOps (ecData L now committees ecDetailsLookup sectorLookup
                         committeeLookup (fold index_committee committees Map.empty))
                         ecStandards) (renecEC S, nextId S)))\<rparr>))))"
proof -
  let ?idx = "fold index_committee committees Map.empty"
  let ?dataOf = "ecData L now committees ecDetailsLookup sectorLookup committeeLookup ?idx"
  let ?ups = "map (\<lambda>ec. prisma_upsert renecEC_model (codigo ec) (?dataOf ec))
                 (filter (\<lambda>ec. codigo ec \<noteq> []) ecStandards)"
  have acc: "collectEcIds (r1 @ r2) a = collectEcIds r2 (collectEcIds r1 a)" for r1 r2 a
    by (simp add: collectEcIds_def)
  have nil: "collectEcIds [] a = a" for a
    by (simp add: collectEcIds_def)
  have l1: "forBatches 100 ecStandards
      (\<lambda>batch st. case transaction (map (ecOp ?dataOf) batch) (snd st) of
         (results, S') \<Rightarrow>
           ((collectEcIds results (fst (fst st)), snd (fst st) + int (length batch)), S'))
      0 ((Map.empty, 0), S) =
    ((collectEcIds (fst (transaction (map (ecOp ?dataOf) ecStandards) S)) Map.empty,
      int (length ecStandards)),
     snd (transaction (map (ecOp ?dataOf) ecStandards) S))"
    using transaction_loop [where accf = "\<lambda>results batch a.
          (collectEcIds results (fst a), snd a + int (length batch))"
        and bsize = 100 and a = "(Map.empty, 0)" and S = S and xs = ecStandards
        and op = "ecOp ?dataOf"]
    by (simp add: acc nil)
  have loop: "forBatches 100 ecStandards
      (\<lambda>batch st. case transaction (map (ecOp ?dataOf) batch) (snd st) of
         (results, S') \<Rightarrow>
           ((collectEcIds results (fst (fst st)), snd (fst st) + int (length batch)), S'))
      0 ((Map.empty, 0), S) =
    ((lookupOf (fst (transaction ?ups S)), int (length ecStandards)), snd (transaction ?ups S))"
    unfolding l1 lookupOf_def
    using transaction_ecOp [of ?dataOf ecStandards S Map.empty] by simp
  have tr: "transaction ?ups S =
     (fst (upserts (ecOps ?dataOf ecStandards) (renecEC S, nextId S)),
      S\<lparr>renecEC := fst (snd (upserts (ecOps ?dataOf ecStandards) (renecEC S, nextId S))),
        nextId := snd (snd (upserts (ecOps ?dataOf ecStandards) (renecEC S, nextId S)))\<rparr>)"
    by (simp add: transaction_upserts [OF lawful_models(3)] ecOps_def)
       (simp add: renecEC_model_def)
  show ?thesis
    unfolding seedECStandards_def
    by (simp add: buildEcToCommitteeKeyIndex_def Let_def loop tr split: option.splits)
qed

subsection \<open>What each step leaves untouched\<close>

lemmas seed_eqs = seedSectors_eq seedCommittees_eq seedECStandards_eq seedOccupations_eq
  seedCertifiers_eq seedCenters_eq seedAccreditations_eq seedCenterOfferings_eq

lemma stepsStandards_frame:
  "renecSyncJob (snd (stepsStandards L now ecs cs det S)) = renecSyncJob S \<and>
   renecCertifier (snd (stepsStandards L now ecs cs det S)) = renecCertifier S \<and>
   renecCenter (snd (stepsStandards L now ecs cs det S)) = renecCenter S \<and>
   renecAccreditation (snd (stepsStandards L now ecs cs det S)) = renecAccreditation S \<and>
   renecCenterOffering (snd (stepsStandards L now ecs cs det S)) = renecCenterOffering S \<and>
   (cs = [] \<longrightarrow> renecCommittee (snd (stepsStandards L now ecs cs det S)) = renecCommittee S) \<and>
   (det = None \<longrightarrow>
      renecECOccupation (snd (stepsStandards L now ecs cs det S)) = renecECOccupation S)"
  by (simp add: stepsStandards_def seed_eqs Let_def split: option.splits)

lemma stepCertifiers_frame:
  "renecSyncJob (snd (stepCertifiers L now f st)) = renecSyncJob (snd st) \<and>
   renecSector (snd (stepCertifiers L now f st)) = renecSector (snd st) \<and>
   renecCommittee (snd (stepCertifiers L now f st)) = renecCommittee (snd st) \<and>
   renecEC (snd (stepCertifiers L now f st)) = renecEC (snd st) \<and>
   renecECOccupation (snd (stepCertifiers L now f st)) = renecECOccupation (snd st) \<and>
   renecCenter (snd (stepCertifiers L now f st)) = renecCenter (snd st) \<and>
   renecAccreditation (snd (stepCertifiers L now f st)) = renecAccreditation (snd st) \<and>
   renecCenterOffering (snd (stepCertifiers L now f st)) = renecCenterOffering (snd st) \<and>
   (f = None \<longrightarrow> stepCertifiers L now f st = st)"
  by (simp add: stepCertifiers_def seed_eqs split: option.splits)

lemma stepCenters_frame:
  "renecSyncJob (snd (stepCenters L now f st)) = renecSyncJob (snd st) \<and>
   renecSector (snd (stepCenters L now f st)) = renecSector (snd st) \<and>
   renecCommittee (snd (stepCenters L now f st)) = renecCommittee (snd st) \<and>
   renecEC (snd (stepCenters L now f st)) = renecEC (snd st) \<and>
   renecECOccupation (snd (stepCenters L now f st)) = renecECOccupation (snd st) \<and>
   renecCertifier (snd (stepCenters L now f st)) = renecCertifier (snd st) \<and>
   renecAccreditation (snd (stepCenters L now f st)) = renecAccreditation (snd st) \<and>
   renecCenterOffering (snd (stepCenters L now f st)) = renecCenterOffering (snd st) \<and>
   (f = None \<longrightarrow> stepCenters L now f st = st)"
  by (simp add: stepCenters_def seed_eqs split: option.splits)

lemma stepAccreditations_frame:
  "renecSyncJob (snd (stepAccreditations f st)) = renecSyncJob (snd st) \<and>
   renecSector (snd (stepAccreditations f st)) = renecSector (snd st) \<and>
   renecCommittee (snd (stepAccreditations f st)) = renecCommittee (snd st) \<and>
   renecEC (snd (stepAccreditations f st)) = renecEC (snd st) \<and>
   renecECOccupation (snd (stepAccreditations f st)) = renecECOccupation (snd st) \<and>
   renecCertifier (snd (stepAccreditations f st)) = renecCertifier (snd st) \<and>
   renecCenter (snd (stepAccreditations f st)) = renecCenter (snd st) \<and>
   renecCenterOffering (snd (stepAccreditations f st)) = renecCenterOffering (snd st) \<and>
   (f = None \<longrightarrow> stepAccreditations f st = st)"
  by (simp add: stepAccreditations_def seed_eqs split: option.splits)

lemma stepCenterOfferings_frame:
  "renecSyncJob (snd (stepCenterOfferings f st)) = renecSyncJob (snd st) \<and>
   renecSector (snd (stepCenterOfferings f st)) = renecSector (snd st) \<and>
   renecCommittee (snd (stepCenterOfferings f st)) = renecCommittee (snd st) \<and>
   renecEC (snd (stepCenterOfferings f st)) = renecEC (snd st) \<and>
   renecECOccupation (snd (stepCenterOfferings f st)) = renecECOccupation (snd st) \<and>
   renecCertifier (snd (stepCenterOfferings f st)) = renecCertifier (snd st) \<and>
   renecCenter (snd (stepCenterOfferings f st)) = renecCenter (snd st) \<and>
   renecAccreditation (snd (stepCenterOfferings f st)) = renecAccreditation (snd st) \<and>
   (f = None \<longrightarrow> stepCenterOfferings f st = st)"
  by (simp add: stepCenterOfferings_def seed_eqs split: option.splits)

lemma runSteps_ledger: "renecSyncJob (snd (runSteps L now dir ecs S)) = renecSyncJob S"
  by (simp add: runSteps_def stepCenterOfferings_frame stepAccreditations_frame
      stepCenters_frame stepCertifiers_frame stepsStandards_frame)



subsection \<open>Missing inputs and the sync job record\<close>

lemma foldl_add_sum_list: "foldl (\<lambda>a b. a + b) a xs = a + sum_list xs" for a :: int
  by (induction xs arbitrary: a) simp_all



text \<open>
  C9. A run that completes (exit code \<open>0\<close>) adds one sync job to the ledger: its status is
  \<open>COMPLETED\<close>, \<open>itemsProcessed\<close> and \<open>itemsCreated\<close> are both the sum of the per-step counts,
  \<open>itemsUpdated\<close> and \<open>itemsSkipped\<close> are \<open>0\<close> and the error list is empty. The witness is a
  run whose accreditation pass skips an unresolved pair.
\<close>

theorem main_ledger_row:
  "fst (main L startTime now extracted S) = 0 \<longrightarrow>
   (\<exists>dir ecs. extracted = Some dir \<and> loadJsonFile (ec_standards_api dir) = Some ecs \<and>
      renecSyncJob (snd (main L startTime now extracted S)) =
        renecSyncJob S @
        [\<lparr>job_id = nextId (snd (runSteps L now dir ecs S)), jobType = ''FULL_SYNC'',
          job_status = ''COMPLETED'', startedAt = startTime, completedAt = now,
          itemsProcessed = sum_list (map snd (fst (runSteps L now dir ecs S))),
          itemsCreated = sum_list (map snd (fst (runSteps L now dir ecs S))),
          itemsUpdated = 0, itemsSkipped = 0, job_errors = []\<rparr>])"
  by (auto simp: main_def createSyncJobRecord_def Let_def runSteps_ledger foldl_add_sum_list
      case_prod_beta split: option.splits if_splits)

theorem main_ledger_row_witness:
  "fst (main sampleRuntime 0 1
     (Some (standardsAndMatrix [sampleEC ''EC0249'' ''5'']
        [(''EC0249'', \<lparr>ece_ids = [''ECE-00001''], ece_count = 1, title = []\<rparr>)])) emptyStore) = 0 \<and>
   map (\<lambda>j. (job_status j, itemsProcessed j, itemsCreated j, itemsUpdated j, itemsSkipped j,
             job_errors j))
     (renecSyncJob (snd (main sampleRuntime 0 1
       (Some (standardsAndMatrix [sampleEC ''EC0249'' ''5'']
          [(''EC0249'', \<lparr>ece_ids = [''ECE-00001''], ece_count = 1, title = []\<rparr>)])) emptyStore))) =
   [(''COMPLETED'', 2, 2, 0, 0, [])]"
  using main_ledger_row [of sampleRuntime 0 1
     "Some (standardsAndMatrix [sampleEC ''EC0249'' ''5'']
        [(''EC0249'', \<lparr>ece_ids = [''ECE-00001''], ece_count = 1, title = []\<rparr>)])" emptyStore]
  by (simp add: main_defs sample_defs client_defs js_defs forBatches.simps)

subsection \<open>The tables after a run\<close>

lemma collectIds_upserts:
  "collectIds (fst (upserts kds T)) [] = idLookup (map fst kds) (fst (snd (upserts kds T)))"
  by (simp add: collectIds_alt upserts_results idLookup_def resultIds_def)

lemma lookupOf_upserts:
  "lookupOf (fst (upserts kds T)) = idMap (map fst kds) (fst (snd (upserts kds T)))"
  by (simp add: lookupOf_alt upserts_results idMap_def resultIds_def)

lemma resultIds_idView: "idView rs = idView rs' \<Longrightarrow> resultIds keys rs = resultIds keys rs'"
  by (simp add: resultIds_def keyId_idView)

lemma idLookup_idView: "idView rs = idView rs' \<Longrightarrow> idLookup keys rs = idLookup keys rs'"
  by (simp add: idLookup_def resultIds_idView [of rs rs'])

lemma idMap_idView: "idView rs = idView rs' \<Longrightarrow> idMap keys rs = idMap keys rs'"
  by (simp add: idMap_def resultIds_idView [of rs rs'])

lemma sectorOps_keys: "map fst (sectorOps L now ecs) = map fst (sectorMapOf ecs)"
  by (simp add: sectorOps_def o_def)

lemma committeeOps_keys: "map fst (committeeOps L now sl cs) = map clave cs"
  by (simp add: committeeOps_def o_def)

lemma ecOps_keys: "map fst (ecOps dataOf ecs) = map codigo (filter (\<lambda>ec. codigo ec \<noteq> []) ecs)"
  by (simp add: ecOps_def o_def)

lemma stepsStandards_sectors:
  "renecSector (snd (stepsStandards L now ecs cs det S)) =
     fst (snd (upserts (sectorOps L now ecs) (renecSector S, nextId S)))"
  by (simp add: stepsStandards_def seed_eqs Let_def split: option.splits)

lemma stepsStandards_committees:
  "\<exists>n. renecCommittee (snd (stepsStandards L now ecs cs det S)) =
     fst (snd (upserts
       (committeeOps L now
          (idLookup (map fst (sectorMapOf ecs))
             (renecSector (snd (stepsStandards L now ecs cs det S)))) cs)
       (renecCommittee S, n)))"
  by (cases cs)
     (auto simp: stepsStandards_def seed_eqs Let_def collectIds_upserts sectorOps_keys
        committeeOps_def split: option.splits)

lemma stepsStandards_standards:
  "\<exists>n. renecEC (snd (stepsStandards L now ecs cs det S)) =
     fst (snd (upserts
       (ecOps (ecData L now cs (map_option ec_details det)
          (idLookup (map fst (sectorMapOf ecs))
             (renecSector (snd (stepsStandards L now ecs cs det S))))
          (idLookup (map clave cs) (renecCommittee (snd (stepsStandards L now ecs cs det S))))
          (fold index_committee cs Map.empty)) ecs)
       (renecEC S, n)))"
  by (cases cs)
     (auto simp: stepsStandards_def seed_eqs Let_def collectIds_upserts sectorOps_keys
        committeeOps_keys idLookup_def resultIds_def split: option.splits)

lemma stepsStandards_occupations:
  "\<exists>n. renecECOccupation (snd (stepsStandards L now ecs cs det S)) =
     (case det of
        None \<Rightarrow> renecECOccupation S
      | Some f \<Rightarrow>
          fst (snd (createMany_rows occ_uniq mkOccupation
            (occupationPairsOf (ec_details f)
               (idMap (map codigo (filter (\<lambda>ec. codigo ec \<noteq> []) ecs))
                  (renecEC (snd (stepsStandards L now ecs cs det S)))))
            (renecECOccupation S, n))))"
  by (cases cs)
     (auto simp: stepsStandards_def seed_eqs Let_def lookupOf_upserts ecOps_keys
        split: option.splits)

lemma stepCertifiers_table:
  "renecCertifier (snd (stepCertifiers L now f st)) =
     (case f of
        None \<Rightarrow> renecCertifier (snd st)
      | Some g \<Rightarrow>
          fst (snd (upserts (certifierOps L now (cert_registry g))
                      (renecCertifier (snd st), nextId (snd st)))))"
  by (simp add: stepCertifiers_def seed_eqs split: option.splits)

lemma stepCenters_table:
  "renecCenter (snd (stepCenters L now f st)) =
     (case f of
        None \<Rightarrow> renecCenter (snd st)
      | Some g \<Rightarrow>
          fst (snd (upserts (centerOps L now (center_registry g))
                      (renecCenter (snd st), nextId (snd st)))))"
  by (simp add: stepCenters_def seed_eqs split: option.splits)

lemma stepAccreditations_table:
  "renecAccreditation (snd (stepAccreditations f st)) =
     (case f of
        None \<Rightarrow> renecAccreditation (snd st)
      | Some g \<Rightarrow>
          fst (snd (createMany_rows acc_uniq mkAccreditation
            (fst (accreditationPairs (lookupOf (renecEC (snd st)))
                    (lookupOf (renecCertifier (snd st))) (matrix g)))
            (renecAccreditation (snd st), nextId (snd st)))))"
  by (simp add: stepAccreditations_def seed_eqs split: option.splits)

lemma stepCenterOfferings_table:
  "renecCenterOffering (snd (stepCenterOfferings f st)) =
     (case f of
        None \<Rightarrow> renecCenterOffering (snd st)
      | Some g \<Rightarrow>
          fst (snd (createMany_rows off_uniq mkOffering
            (fst (offeringPairs (lookupOf (renecEC (snd st)))
                    (lookupOf (renecCenter (snd st))) (center_registry g)))
            (renecCenterOffering (snd st), nextId (snd st)))))"
  by (simp add: stepCenterOfferings_def seed_eqs split: option.splits)

lemmas step_frames = stepCenterOfferings_frame stepAccreditations_frame
  stepCenters_frame stepCertifiers_frame stepsStandards_frame

lemma stepsStandards_frame':
  "renecSector (snd (stepCenterOfferings f4 (stepAccreditations f3
      (stepCenters L now f2 (stepCertifiers L now f1 st))))) = renecSector (snd st) \<and>
   renecCommittee (snd (stepCenterOfferings f4 (stepAccreditations f3
      (stepCenters L now f2 (stepCertifiers L now f1 st))))) = renecCommittee (snd st) \<and>
   renecEC (snd (stepCenterOfferings f4 (stepAccreditations f3
      (stepCenters L now f2 (stepCertifiers L now f1 st))))) = renecEC (snd st) \<and>
   renecECOccupation (snd (stepCenterOfferings f4 (stepAccreditations f3
      (stepCenters L now f2 (stepCertifiers L now f1 st))))) = renecECOccupation (snd st)"
  by (simp add: step_frames)

lemma runSteps_sectors:
  "renecSector (snd (runSteps L now dir ecs S)) =
     fst (snd (upserts (sectorOps L now ecs) (renecSector S, nextId S)))"
  by (simp add: runSteps_def stepsStandards_frame' stepsStandards_sectors)

lemma runSteps_committees:
  "\<exists>n. renecCommittee (snd (runSteps L now dir ecs S)) =
     fst (snd (upserts
       (committeeOps L now
          (idLookup (map fst (sectorMapOf ecs)) (renecSector (snd (runSteps L now dir ecs S))))
          (case loadJsonFile (committees_complete dir) of None \<Rightarrow> [] | Some cs \<Rightarrow> cs))
       (renecCommittee S, n)))"
  unfolding runSteps_def stepsStandards_frame' [THEN conjunct1]
    stepsStandards_frame' [THEN conjunct2, THEN conjunct1]
  by (rule stepsStandards_committees)

lemma runSteps_standards:
  "\<exists>n. renecEC (snd (runSteps L now dir ecs S)) =
     fst (snd (upserts
       (ecOps (ecData L now
          (case loadJsonFile (committees_complete dir) of None \<Rightarrow> [] | Some cs \<Rightarrow> cs)
          (map_option ec_details (loadJsonFile (ec_certifiers_all dir)))
          (idLookup (map fst (sectorMapOf ecs)) (renecSector (snd (runSteps L now dir ecs S))))
          (idLookup
             (map clave (case loadJsonFile (committees_complete dir) of None \<Rightarrow> [] | Some cs \<Rightarrow> cs))
             (renecCommittee (snd (runSteps L now dir ecs S))))
          (fold index_committee
             (case loadJsonFile (committees_complete dir) of None \<Rightarrow> [] | Some cs \<Rightarrow> cs)
             Map.empty)) ecs)
       (renecEC S, n)))"
  unfolding runSteps_def stepsStandards_frame' [THEN conjunct1]
    stepsStandards_frame' [THEN conjunct2, THEN conjunct1]
    stepsStandards_frame' [THEN conjunct2, THEN conjunct2, THEN conjunct1]
  by (rule stepsStandards_standards)

lemma runSteps_occupations:
  "\<exists>n. renecECOccupation (snd (runSteps L now dir ecs S)) =
     (case loadJsonFile (ec_certifiers_all dir) of
        None \<Rightarrow> renecECOccupation S
      | Some f \<Rightarrow>
          fst (snd (createMany_rows occ_uniq mkOccupation
            (occupationPairsOf (ec_details f)
               (idMap (map codigo (filter (\<lambda>ec. codigo ec \<noteq> []) ecs))
                  (renecEC (snd (runSteps L now dir ecs S)))))
            (renecECOccupation S, n))))"
  unfolding runSteps_def
    stepsStandards_frame' [THEN conjunct2, THEN conjunct2, THEN conjunct1]
    stepsStandards_frame' [THEN conjunct2, THEN conjunct2, THEN conjunct2]
  by (rule stepsStandards_occupations)

lemma runSteps_certifiers:
  "\<exists>n. renecCertifier (snd (runSteps L now dir ecs S)) =
     (case loadJsonFile (master_ece_registry dir) of
        None \<Rightarrow> renecCertifier S
      | Some g \<Rightarrow>
          fst (snd (upserts (certifierOps L now (cert_registry g)) (renecCertifier S, n))))"
  by (auto simp: runSteps_def step_frames stepCertifiers_table split: option.splits)

lemma runSteps_centers:
  "\<exists>n. renecCenter (snd (runSteps L now dir ecs S)) =
     (case loadJsonFile (master_ccap_registry dir) of
        None \<Rightarrow> renecCenter S
      | Some g \<Rightarrow>
          fst (snd (upserts (centerOps L now (center_registry g)) (renecCenter S, n))))"
  by (auto simp: runSteps_def step_frames stepCenters_table split: option.splits)

lemma runSteps_accreditations:
  "\<exists>n. renecAccreditation (snd (runSteps L now dir ecs S)) =
     (case loadJsonFile (ec_ece_matrix dir) of
        None \<Rightarrow> renecAccreditation S
      | Some g \<Rightarrow>
          fst (snd (createMany_rows acc_uniq mkAccreditation
            (fst (accreditationPairs (lookupOf (renecEC (snd (runSteps L now dir ecs S))))
                    (lookupOf (renecCertifier (snd (runSteps L now dir ecs S)))) (matrix g)))
            (renecAccreditation S, n))))"
  by (auto simp: runSteps_def step_frames stepAccreditations_table split: option.splits)

lemma runSteps_offerings:
  "\<exists>n. renecCenterOffering (snd (runSteps L now dir ecs S)) =
     (case loadJsonFile (master_ccap_registry dir) of
        None \<Rightarrow> renecCenterOffering S
      | Some g \<Rightarrow>
          fst (snd (createMany_rows off_uniq mkOffering
            (fst (offeringPairs (lookupOf (renecEC (snd (runSteps L now dir ecs S))))
                    (lookupOf (renecCenter (snd (runSteps L now dir ecs S)))) (center_registry g)))
            (renecCenterOffering S, n))))"
  by (auto simp: runSteps_def step_frames stepCenterOfferings_table split: option.splits)

subsection \<open>A second run over the same files\<close>

lemma upserts_again_tables:
  assumes "rows1 = fst (snd (upserts kds1 T))"
    and "rows2 = fst (snd (upserts kds2 (rows1, n)))"
    and "list_all2 (\<lambda>a b. fst a = fst b \<and> e (snd a) = e (snd b)) kds1 kds2"
  shows "idView rows2 = idView rows1 \<and> rowsModulo e rows2 = rowsModulo e rows1"
  using upserts_again [OF assms(3), of T n] assms(1,2) by simp

lemma sectorOps_rel:
  "list_all2 (\<lambda>a b. fst a = fst b \<and>
      (snd a)\<lparr>sec_lastSyncedAt := 0\<rparr> = (snd b)\<lparr>sec_lastSyncedAt := 0\<rparr>)
     (sectorOps L now1 ecs) (sectorOps L now2 ecs)"
  by (simp add: sectorOps_def list_all2_map1 list_all2_map2 list_all2_same sectorData_def)

lemma committeeOps_rel:
  "list_all2 (\<lambda>a b. fst a = fst b \<and>
      (snd a)\<lparr>com_lastSyncedAt := 0\<rparr> = (snd b)\<lparr>com_lastSyncedAt := 0\<rparr>)
     (committeeOps L now1 sl cs) (committeeOps L now2 sl cs)"
  by (simp add: committeeOps_def list_all2_map1 list_all2_map2 list_all2_same committeeData_def)

lemma ecOps_rel:
  "list_all2 (\<lambda>a b. fst a = fst b \<and>
      (snd a)\<lparr>ec_lastSyncedAt := 0\<rparr> = (snd b)\<lparr>ec_lastSyncedAt := 0\<rparr>)
     (ecOps (ecData L now1 cs det sl cl idx) ecs) (ecOps (ecData L now2 cs det sl cl idx) ecs)"
  by (simp add: ecOps_def list_all2_map1 list_all2_map2 list_all2_same ecData_def Let_def)

lemma certifierOps_rel:
  "list_all2 (\<lambda>a b. fst a = fst b \<and>
      (snd a)\<lparr>crt_lastSyncedAt := 0\<rparr> = (snd b)\<lparr>crt_lastSyncedAt := 0\<rparr>)
     (certifierOps L now1 reg) (certifierOps L now2 reg)"
  by (simp add: certifierOps_def list_all2_map1 list_all2_map2 list_all2_same certifierData_def)

lemma centerOps_rel:
  "list_all2 (\<lambda>a b. fst a = fst b \<and>
      (snd a)\<lparr>cen_lastSyncedAt := 0\<rparr> = (snd b)\<lparr>cen_lastSyncedAt := 0\<rparr>)
     (centerOps L now1 reg) (centerOps L now2 reg)"
  by (simp add: centerOps_def list_all2_map1 list_all2_map2 list_all2_same centerData_def)

lemma uniq_mk:
  "acc_uniq (mkAccreditation n p) = p" "off_uniq (mkOffering n p) = p"
  "occ_uniq (mkOccupation n q) = q"
  by (simp_all add: acc_uniq_def mkAccreditation_def off_uniq_def mkOffering_def
      occ_uniq_def mkOccupation_def)

lemma runSteps_again:
  assumes sec: "renecSector S1 = renecSector (snd (runSteps L now1 dir ecs S0))"
    and com: "renecCommittee S1 = renecCommittee (snd (runSteps L now1 dir ecs S0))"
    and ec: "renecEC S1 = renecEC (snd (runSteps L now1 dir ecs S0))"
    and crt: "renecCertifier S1 = renecCertifier (snd (runSteps L now1 dir ecs S0))"
    and cen: "renecCenter S1 = renecCenter (snd (runSteps L now1 dir ecs S0))"
    and occ: "renecECOccupation S1 = renecECOccupation (snd (runSteps L now1 dir ecs S0))"
    and acc: "renecAccreditation S1 = renecAccreditation (snd (runSteps L now1 dir ecs S0))"
    and off: "renecCenterOffering S1 = renecCenterOffering (snd (runSteps L now1 dir ecs S0))"
  shows "sectorsView (snd (runSteps L now2 dir ecs S1)) =
           sectorsView (snd (runSteps L now1 dir ecs S0)) \<and>
         committeesView (snd (runSteps L now2 dir ecs S1)) =
           committeesView (snd (runSteps L now1 dir ecs S0)) \<and>
         standardsView (snd (runSteps L now2 dir ecs S1)) =
           standardsView (snd (runSteps L now1 dir ecs S0)) \<and>
         certifiersView (snd (runSteps L now2 dir ecs S1)) =
           certifiersView (snd (runSteps L now1 dir ecs S0)) \<and>
         centersView (snd (runSteps L now2 dir ecs S1)) =
           centersView (snd (runSteps L now1 dir ecs S0)) \<and>
         renecECOccupation (snd (runSteps L now2 dir ecs S1)) =
           renecECOccupation (snd (runSteps L now1 dir ecs S0)) \<and>
         renecAccreditation (snd (runSteps L now2 dir ecs S1)) =
           renecAccreditation (snd (runSteps L now1 dir ecs S0)) \<and>
         renecCenterOffering (snd (runSteps L now2 dir ecs S1)) =
           renecCenterOffering (snd (runSteps L now1 dir ecs S0))"
proof -
  let ?R1 = "snd (runSteps L now1 dir ecs S0)"
  let ?R2 = "snd (runSteps L now2 dir ecs S1)"
  let ?cs = "case loadJsonFile (committees_complete dir) of None \<Rightarrow> [] | Some cs \<Rightarrow> cs"
  let ?det = "map_option ec_details (loadJsonFile (ec_certifiers_all dir))"
  let ?idx = "fold index_committee ?cs Map.empty"
  \<comment> \<open>sectors\<close>
  have s1: "renecSector ?R1 = fst (snd (upserts (sectorOps L now1 ecs) (renecSector S0, nextId S0)))"
    by (rule runSteps_sectors)
  have s2: "renecSector ?R2 =
      fst (snd (upserts (sectorOps L now2 ecs) (renecSector ?R1, nextId S1)))"
    using runSteps_sectors [of L now2 dir ecs S1] sec by simp
  from upserts_again_tables [OF s1 s2 sectorOps_rel]
  have sv: "idView (renecSector ?R2) = idView (renecSector ?R1)"
    and sm: "sectorsView ?R2 = sectorsView ?R1"
    by (simp_all add: sectorsView_def)
  let ?sl = "idLookup (map fst (sectorMapOf ecs)) (renecSector ?R1)"
  have sl: "idLookup (map fst (sectorMapOf ecs)) (renecSector ?R2) = ?sl"
    using sv by (rule idLookup_idView)
  \<comment> \<open>committees\<close>
  obtain n1 where c1: "renecCommittee ?R1 =
      fst (snd (upserts (committeeOps L now1 ?sl ?cs) (renecCommittee S0, n1)))"
    using runSteps_committees [of L now1 dir ecs S0] by blast
  obtain n2 where c2: "renecCommittee ?R2 =
      fst (snd (upserts (committeeOps L now2 ?sl ?cs) (renecCommittee ?R1, n2)))"
    using runSteps_committees [of L now2 dir ecs S1] com sl by auto
  from upserts_again_tables [OF c1 c2 committeeOps_rel]
  have cv: "idView (renecCommittee ?R2) = idView (renecCommittee ?R1)"
    and cm: "committeesView ?R2 = committeesView ?R1"
    by (simp_all add: committeesView_def)
  let ?cl = "idLookup (map clave ?cs) (renecCommittee ?R1)"
  have cl: "idLookup (map clave ?cs) (renecCommittee ?R2) = ?cl"
    using cv by (rule idLookup_idView)
  \<comment> \<open>standards\<close>
  obtain m1 where e1: "renecEC ?R1 =
      fst (snd (upserts (ecOps (ecData L now1 ?cs ?det ?sl ?cl ?idx) ecs) (renecEC S0, m1)))"
    using runSteps_standards [of L now1 dir ecs S0] by blast
  obtain m2 where e2: "renecEC ?R2 =
      fst (snd (upserts (ecOps (ecData L now2 ?cs ?det ?sl ?cl ?idx) ecs) (renecEC ?R1, m2)))"
    using runSteps_standards [of L now2 dir ecs S1] ec sl cl by auto
  from upserts_again_tables [OF e1 e2 ecOps_rel]
  have ev: "idView (renecEC ?R2) = idView (renecEC ?R1)"
    and em: "standardsView ?R2 = standardsView ?R1"
    by (simp_all add: standardsView_def)
  \<comment> \<open>occupations\<close>
  let ?keys = "map codigo (filter (\<lambda>ec. codigo ec \<noteq> []) ecs)"
  have im: "idMap ?keys (renecEC ?R2) = idMap ?keys (renecEC ?R1)"
    using ev by (rule idMap_idView)
  obtain k1 where o1: "renecECOccupation ?R1 =
     (case loadJsonFile (ec_certifiers_all dir) of
        None \<Rightarrow> renecECOccupation S0
      | Some f \<Rightarrow>
          fst (snd (createMany_rows occ_uniq mkOccupation
            (occupationPairsOf (ec_details f) (idMap ?keys (renecEC ?R1)))
            (renecECOccupation S0, k1))))"
    using runSteps_occupations [of L now1 dir ecs S0] by blast
  obtain k2 where o2: "renecECOccupation ?R2 =
     (case loadJsonFile (ec_certifiers_all dir) of
        None \<Rightarrow> renecECOccupation ?R1
      | Some f \<Rightarrow>
          fst (snd (createMany_rows occ_uniq mkOccupation
            (occupationPairsOf (ec_details f) (idMap ?keys (renecEC ?R1)))
            (renecECOccupation ?R1, k2))))"
    using runSteps_occupations [of L now2 dir ecs S1] unfolding occ im by blast
  have om: "renecECOccupation ?R2 = renecECOccupation ?R1"
  proof (cases "loadJsonFile (ec_certifiers_all dir)")
    case None
    then show ?thesis using o2 by simp
  next
    case (Some f)
    then show ?thesis
      using o1 o2 createMany_rows_again [of occ_uniq mkOccupation "\<lambda>q. q"
          "occupationPairsOf (ec_details f) (idMap ?keys (renecEC ?R1))"
          "(renecECOccupation S0, k1)" k2]
      by (simp add: uniq_mk)
  qed
  \<comment> \<open>certifiers\<close>
  obtain p1 where t1: "renecCertifier ?R1 =
     (case loadJsonFile (master_ece_registry dir) of
        None \<Rightarrow> renecCertifier S0
      | Some g \<Rightarrow>
          fst (snd (upserts (certifierOps L now1 (cert_registry g)) (renecCertifier S0, p1))))"
    using runSteps_certifiers [of L now1 dir ecs S0] by blast
  obtain p2 where t2: "renecCertifier ?R2 =
     (case loadJsonFile (master_ece_registry dir) of
        None \<Rightarrow> renecCertifier ?R1
      | Some g \<Rightarrow>
          fst (snd (upserts (certifierOps L now2 (cert_registry g)) (renecCertifier ?R1, p2))))"
    using runSteps_certifiers [of L now2 dir ecs S1] unfolding crt by blast
  have tv: "idView (renecCertifier ?R2) = idView (renecCertifier ?R1) \<and>
            certifiersView ?R2 = certifiersView ?R1"
  proof (cases "loadJsonFile (master_ece_registry dir)")
    case None
    then show ?thesis using t2 by (simp add: certifiersView_def)
  next
    case (Some g)
    with t1 t2 have
      a: "renecCertifier ?R1 =
          fst (snd (upserts (certifierOps L now1 (cert_registry g)) (renecCertifier S0, p1)))"
      and b: "renecCertifier ?R2 =
          fst (snd (upserts (certifierOps L now2 (cert_registry g)) (renecCertifier ?R1, p2)))"
      by simp_all
    from upserts_again_tables [OF a b certifierOps_rel]
    show ?thesis by (simp add: certifiersView_def)
  qed
  \<comment> \<open>centers\<close>
  obtain q1 where u1: "renecCenter ?R1 =
     (case loadJsonFile (master_ccap_registry dir) of
        None \<Rightarrow> renecCenter S0
      | Some g \<Rightarrow>
          fst (snd (upserts (centerOps L now1 (center_registry g)) (renecCenter S0, q1))))"
    using runSteps_centers [of L now1 dir ecs S0] by blast
  obtain q2 where u2: "renecCenter ?R2 =
     (case loadJsonFile (master_ccap_registry dir) of
        None \<Rightarrow> renecCenter ?R1
      | Some g \<Rightarrow>
          fst (snd (upserts (centerOps L now2 (center_registry g)) (renecCenter ?R1, q2))))"
    using runSteps_centers [of L now2 dir ecs S1] unfolding cen by blast
  have uv: "idView (renecCenter ?R2) = idView (renecCenter ?R1) \<and>
            centersView ?R2 = centersView ?R1"
  proof (cases "loadJsonFile (master_ccap_registry dir)")
    case None
    then show ?thesis using u2 by (simp add: centersView_def)
  next
    case (Some g)
    with u1 u2 have
      a: "renecCenter ?R1 =
          fst (snd (upserts (centerOps L now1 (center_registry g)) (renecCenter S0, q1)))"
      and b: "renecCenter ?R2 =
          fst (snd (upserts (centerOps L now2 (center_registry g)) (renecCenter ?R1, q2)))"
      by simp_all
    from upserts_again_tables [OF a b centerOps_rel]
    show ?thesis by (simp add: centersView_def)
  qed
  \<comment> \<open>the lookups of steps 6 and 7\<close>
  have le: "lookupOf (renecEC ?R2) = lookupOf (renecEC ?R1)"
    using ev by (rule lookupOf_idView)
  have lt: "lookupOf (renecCertifier ?R2) = lookupOf (renecCertifier ?R1)"
    by (rule lookupOf_idView) (simp add: tv)
  have lu: "lookupOf (renecCenter ?R2) = lookupOf (renecCenter ?R1)"
    by (rule lookupOf_idView) (simp add: uv)
  \<comment> \<open>accreditations\<close>
  obtain a1 where x1: "renecAccreditation ?R1 =
     (case loadJsonFile (ec_ece_matrix dir) of
        None \<Rightarrow> renecAccreditation S0
      | Some g \<Rightarrow>
          fst (snd (createMany_rows acc_uniq mkAccreditation
            (fst (accreditationPairs (lookupOf (renecEC ?R1)) (lookupOf (renecCertifier ?R1))
                    (matrix g)))
            (renecAccreditation S0, a1))))"
    using runSteps_accreditations [of L now1 dir ecs S0] by blast
  obtain a2 where x2: "renecAccreditation ?R2 =
     (case loadJsonFile (ec_ece_matrix dir) of
        None \<Rightarrow> renecAccreditation ?R1
      | Some g \<Rightarrow>
          fst (snd (createMany_rows acc_uniq mkAccreditation
            (fst (accreditationPairs (lookupOf (renecEC ?R1)) (lookupOf (renecCertifier ?R1))
                    (matrix g)))
            (renecAccreditation ?R1, a2))))"
    using runSteps_accreditations [of L now2 dir ecs S1] unfolding acc le lt by blast
  have xm: "renecAccreditation ?R2 = renecAccreditation ?R1"
  proof (cases "loadJsonFile (ec_ece_matrix dir)")
    case None
    then show ?thesis using x2 by simp
  next
    case (Some g)
    then show ?thesis
      using x1 x2 createMany_rows_again [of acc_uniq mkAccreditation "\<lambda>q. q"
          "fst (accreditationPairs (lookupOf (renecEC ?R1)) (lookupOf (renecCertifier ?R1))
                  (matrix g))"
          "(renecAccreditation S0, a1)" a2]
      by (simp add: uniq_mk)
  qed
  \<comment> \<open>offerings\<close>
  obtain b1 where y1: "renecCenterOffering ?R1 =
     (case loadJsonFile (master_ccap_registry dir) of
        None \<Rightarrow> renecCenterOffering S0
      | Some g \<Rightarrow>
          fst (snd (createMany_rows off_uniq mkOffering
            (fst (offeringPairs (lookupOf (renecEC ?R1)) (lookupOf (renecCenter ?R1))
                    (center_registry g)))
            (renecCenterOffering S0, b1))))"
    using runSteps_offerings [of L now1 dir ecs S0] by blast
  obtain b2 where y2: "renecCenterOffering ?R2 =
     (case loadJsonFile (master_ccap_registry dir) of
        None \<Rightarrow> renecCenterOffering ?R1
      | Some g \<Rightarrow>
          fst (snd (createMany_rows off_uniq mkOffering
            (fst (offeringPairs (lookupOf (renecEC ?R1)) (lookupOf (renecCenter ?R1))
                    (center_registry g)))
            (renecCenterOffering ?R1, b2))))"
    using runSteps_offerings [of L now2 dir ecs S1] unfolding off le lu by blast
  have ym: "renecCenterOffering ?R2 = renecCenterOffering ?R1"
  proof (cases "loadJsonFile (master_ccap_registry dir)")
    case None
    then show ?thesis using y2 by simp
  next
    case (Some g)
    then show ?thesis
      using y1 y2 createMany_rows_again [of off_uniq mkOffering "\<lambda>q. q"
          "fst (offeringPairs (lookupOf (renecEC ?R1)) (lookupOf (renecCenter ?R1))
                  (center_registry g))"
          "(renecCenterOffering S0, b1)" b2]
      by (simp add: uniq_mk)
  qed
  show ?thesis using sm cm em tv uv om xm ym by simp
qed

lemma createSyncJobRecord_frame:
  "renecSector (createSyncJobRecord stats st now S) = renecSector S \<and>
   renecCommittee (createSyncJobRecord stats st now S) = renecCommittee S \<and>
   renecEC (createSyncJobRecord stats st now S) = renecEC S \<and>
   renecCertifier (createSyncJobRecord stats st now S) = renecCertifier S \<and>
   renecCenter (createSyncJobRecord stats st now S) = renecCenter S \<and>
   renecECOccupation (createSyncJobRecord stats st now S) = renecECOccupation S \<and>
   renecAccreditation (createSyncJobRecord stats st now S) = renecAccreditation S \<and>
   renecCenterOffering (createSyncJobRecord stats st now S) = renecCenterOffering S"
  by (simp add: createSyncJobRecord_def Let_def)

lemma views_frame:
  "sectorsView (createSyncJobRecord stats st now S) = sectorsView S \<and>
   committeesView (createSyncJobRecord stats st now S) = committeesView S \<and>
   standardsView (createSyncJobRecord stats st now S) = standardsView S \<and>
   certifiersView (createSyncJobRecord stats st now S) = certifiersView S \<and>
   centersView (createSyncJobRecord stats st now S) = centersView S"
  by (simp add: sectorsView_def committeesView_def standardsView_def certifiersView_def
      centersView_def createSyncJobRecord_frame)

text \<open>
  C6. Running the script twice over the same files (the same runtime, any start and
  synchronisation times, any store to begin with) leaves, after the second run, every
  entity table as it was after the first run, row by row with the same identifier, natural
  key and data, the synchronisation time apart; the occupation, accreditation and offering
  tables are the same lists of rows. So the second run creates no entity row and no join
  pair. Both runs end with the same exit code.
\<close>

theorem main_idempotent:
  assumes run1: "main L start1 now1 extracted S0 = (c1, S1)"
    and run2: "main L start2 now2 extracted S1 = (c2, S2)"
  shows "c2 = c1 \<and>
         sectorsView S2 = sectorsView S1 \<and>
         committeesView S2 = committeesView S1 \<and>
         standardsView S2 = standardsView S1 \<and>
         certifiersView S2 = certifiersView S1 \<and>
         centersView S2 = centersView S1 \<and>
         renecECOccupation S2 = renecECOccupation S1 \<and>
         renecAccreditation S2 = renecAccreditation S1 \<and>
         renecCenterOffering S2 = renecCenterOffering S1"
proof (cases "\<exists>dir ecs. extracted = Some dir \<and> loadJsonFile (ec_standards_api dir) = Some ecs \<and>
    ecs \<noteq> []")
  case False
  then have "main L st now extracted S = (1, S)" for st now S
    by (auto simp: main_def split: option.splits)
  with run1 run2 show ?thesis by simp
next
  case True
  then obtain dir ecs where d: "extracted = Some dir"
    "loadJsonFile (ec_standards_api dir) = Some ecs" "ecs \<noteq> []" by blast
  have m: "main L st now extracted S =
      (0, createSyncJobRecord (fst (runSteps L now dir ecs S)) st now
            (snd (runSteps L now dir ecs S)))" for st now S
    using d by (simp add: main_def case_prod_beta)
  let ?R1 = "snd (runSteps L now1 dir ecs S0)"
  let ?R2 = "snd (runSteps L now2 dir ecs S1)"
  from run1 m have s1: "S1 = createSyncJobRecord (fst (runSteps L now1 dir ecs S0)) start1 now1 ?R1"
    and c1: "c1 = 0" by simp_all
  from run2 m have s2: "S2 = createSyncJobRecord (fst (runSteps L now2 dir ecs S1)) start2 now2 ?R2"
    and c2: "c2 = 0" by simp_all
  have again: "sectorsView ?R2 = sectorsView ?R1 \<and>
         committeesView ?R2 = committeesView ?R1 \<and>
         standardsView ?R2 = standardsView ?R1 \<and>
         certifiersView ?R2 = certifiersView ?R1 \<and>
         centersView ?R2 = centersView ?R1 \<and>
         renecECOccupation ?R2 = renecECOccupation ?R1 \<and>
         renecAccreditation ?R2 = renecAccreditation ?R1 \<and>
         renecCenterOffering ?R2 = renecCenterOffering ?R1"
    by (rule runSteps_again) (simp_all add: s1 createSyncJobRecord_frame)
  have v1: "sectorsView S1 = sectorsView ?R1" "committeesView S1 = committeesView ?R1"
    "standardsView S1 = standardsView ?R1" "certifiersView S1 = certifiersView ?R1"
    "centersView S1 = centersView ?R1" "renecECOccupation S1 = renecECOccupation ?R1"
    "renecAccreditation S1 = renecAccreditation ?R1"
    "renecCenterOffering S1 = renecCenterOffering ?R1"
    unfolding s1 by (simp_all add: views_frame createSyncJobRecord_frame)
  have v2: "sectorsView S2 = sectorsView ?R2" "committeesView S2 = committeesView ?R2"
    "standardsView S2 = standardsView ?R2" "certifiersView S2 = certifiersView ?R2"
    "centersView S2 = centersView ?R2" "renecECOccupation S2 = renecECOccupation ?R2"
    "renecAccreditation S2 = renecAccreditation ?R2"
    "renecCenterOffering S2 = renecCenterOffering ?R2"
    unfolding s2 by (simp_all add: views_frame createSyncJobRecord_frame)
  show ?thesis using again c1 c2 by (simp add: v1 v2)
qed

theorem main_idempotent_witness:
  "fst (main sampleRuntime 2 3 (Some sampleFull)
          (snd (main sampleRuntime 0 1 (Some sampleFull) emptyStore))) = 0 \<and>
   standardsView (snd (main sampleRuntime 2 3 (Some sampleFull)
          (snd (main sampleRuntime 0 1 (Some sampleFull) emptyStore)))) =
     standardsView (snd (main sampleRuntime 0 1 (Some sampleFull) emptyStore)) \<and>
   renecAccreditation (snd (main sampleRuntime 2 3 (Some sampleFull)
          (snd (main sampleRuntime 0 1 (Some sampleFull) emptyStore)))) =
     renecAccreditation (snd (main sampleRuntime 0 1 (Some sampleFull) emptyStore)) \<and>
   map acc_uniq (renecAccreditation (snd (main sampleRuntime 0 1 (Some sampleFull) emptyStore))) =
     [(2, 4)] \<and>
   map occ_uniq (renecECOccupation (snd (main sampleRuntime 2 3 (Some sampleFull)
          (snd (main sampleRuntime 0 1 (Some sampleFull) emptyStore))))) =
     [(2, ''Instructor'')]"
proof -
  let ?r1 = "main sampleRuntime 0 1 (Some sampleFull) emptyStore"
  let ?r2 = "main sampleRuntime 2 3 (Some sampleFull) (snd ?r1)"
  have a: "?r1 = (fst ?r1, snd ?r1)" and b: "?r2 = (fst ?r2, snd ?r2)" by simp_all
  note t = main_idempotent [OF a b]
  have e: "fst ?r1 = 0 \<and> map acc_uniq (renecAccreditation (snd ?r1)) = [(2, 4)] \<and>
      map occ_uniq (renecECOccupation (snd ?r1)) = [(2, ''Instructor'')]"
    by (simp add: main_defs sample_defs client_defs js_defs forBatches.simps
        acc_uniq_def mkAccreditation_def occ_uniq_def mkOccupation_def index_committee_def)
  show ?thesis using t e by simp
qed

subsection \<open>The content fingerprint\<close>







end
